theory Spec2Isabelle
  imports Complex_Main
begin

section \<open>Numbers, arrays and failures\<close>

text \<open>
  A JavaScript \<^verbatim>\<open>number\<close> is modelled as a real: double arithmetic is idealised as
  exact, which it is on the integers of moderate size the engine works with. The one
  exception is the sum that spreads the starting values of the evaluator, which is
  rounded as a sum of doubles is (\<open>fl\<close>, below). The values
  \<^verbatim>\<open>NaN\<close>, \<^verbatim>\<open>Infinity\<close>, \<^verbatim>\<open>null\<close> and \<^verbatim>\<open>undefined\<close> are no reals; wherever the
  code can produce one of them from finite inputs, the model says so with \<open>None\<close> (with
  the value \<open>NaN\<close> of the evaluator's numbers, or with a failure, below), and every
  comparison with such a value is written out as JavaScript decides it.
\<close>

definition isInteger :: "real \<Rightarrow> bool" where
  \<comment> \<open>\<^verbatim>\<open>Number.isInteger(v)\<close>\<close>
  "isInteger v \<longleftrightarrow> of_int \<lfloor>v\<rfloor> = v"

definition Math_round :: "real \<Rightarrow> real" where
  \<comment> \<open>\<^verbatim>\<open>Math.round\<close>: the nearest integer, a tie going up\<close>
  "Math_round x = of_int \<lfloor>x + 1 / 2\<rfloor>"

definition element :: "'a list \<Rightarrow> nat \<Rightarrow> 'a option" where
  \<comment> \<open>\<^verbatim>\<open>xs[i]\<close>: \<^verbatim>\<open>undefined\<close> (\<open>None\<close>) past the end\<close>
  "element xs i = (if i < length xs then Some (xs ! i) else None)"

fun strictEq :: "real option \<Rightarrow> real option \<Rightarrow> bool" where
  \<comment> \<open>\<^verbatim>\<open>a === b\<close> where \<open>a\<close> is a number, \<^verbatim>\<open>null\<close> or \<^verbatim>\<open>NaN\<close> and \<open>b\<close> is a number
      or \<^verbatim>\<open>undefined\<close>: true only for two equal numbers\<close>
  "strictEq (Some x) (Some y) = (x = y)"
| "strictEq _ _ = False"

section \<open>Rule model (types.ts)\<close>

datatype RuleProgramType =
    ARITHMETIC_SEQUENCE
  | GEOMETRIC_SEQUENCE
  | LINEAR_DIFF
  | SECOND_ORDER_CONSTANT
  | ALTERNATING_OPS
  | ALTERNATING_PARITY
  | POSITIONAL_FORMULA
  | CUBIC_POSITIONAL
  | RECURSIVE_LINEAR
  | FIBONACCI_LIKE
  | TRIBONACCI_LIKE
  | DIGIT_SUM_BASED
  | MULTIPLY_THEN_ADD
  | POWER_BASED
  | UNRECOGNIZED string
      \<comment> \<open>a token outside the enumeration: the types are gone at run time, and a caller
          of the evaluator can pass one\<close>

datatype op_kind = add | subtract | multiply

datatype power_type = n_to_k | k_to_n | n_squared_plus

record RuleProgramParams =
  difference :: "real option"
  ratio :: "real option"
  initialDiff :: "real option"
  diffIncrement :: "real option"
  secondDifference :: "real option"
  operations :: "(op_kind \<times> real) list option"
  oddMultiplier :: "real option"
  oddAddend :: "real option"
  evenMultiplier :: "real option"
  evenAddend :: "real option"
  a :: "real option"
  b :: "real option"
  c :: "real option"
  cubicA :: "real option"
  cubicB :: "real option"
  cubicC :: "real option"
  cubicD :: "real option"
  multiplier :: "real option"
  addend :: "real option"
  prevMultiplier :: "real option"
  prev2Multiplier :: "real option"
  digitSumMultiplier :: "real option"
  digitSumAddend :: "real option"
  multiplyFactor :: "real option"
  addFactor :: "real option"
  base :: "real option"
  exponent :: "nat option"
  powerType :: "power_type option"
  startingValues :: "real list option"

record PuzzleGenerationResponse =
  ruleProgramType :: RuleProgramType
  ruleProgramParams :: RuleProgramParams
  tags :: "string list"
  hints :: "string list"
  explanation :: string
  suggestedStartingValues :: "real list list option"

text \<open>
  The record above is what the proposal source (openrouter.ts) returns. It is declared
  before \<open>PuzzleData\<close> so that the field names they share, written without a prefix,
  are those of \<open>PuzzleData\<close>.
\<close>

record PuzzleData =
  ruleProgramType :: RuleProgramType
  ruleProgramParams :: RuleProgramParams
  tags :: "string list"
  sequences :: "real list list"
  answers :: "real list"
  primarySequenceIndex :: nat
  hints :: "string list"
  explanation :: string

text \<open>
  \<open>primarySequenceIndex\<close> is a \<^verbatim>\<open>number\<close> in the source; an index that is negative or
  fractional reads \<^verbatim>\<open>undefined\<close> exactly as one past the end does, so a natural number
  covers every behaviour. \<open>hints\<close> is typed as a pair but checked at run time by its
  length, so it is a list here.
\<close>

datatype failure =
    UnknownRule RuleProgramType  \<comment> \<open>\<^verbatim>\<open>throw new Error(`Unknown rule type: ...`)\<close>\<close>
  | TypeError                    \<comment> \<open>a property read on \<^verbatim>\<open>undefined\<close>\<close>
  | NotANumber                   \<comment> \<open>nothing is thrown, but the puzzle built holds \<^verbatim>\<open>NaN\<close>\<close>
  | ProposalFailure              \<comment> \<open>the external proposal call rejected\<close>

section \<open>Validator (validation.ts)\<close>

definition MIN_VALUE :: real where "MIN_VALUE = - 999"
definition MAX_VALUE :: real where "MAX_VALUE = 999"
definition MIN_SEQUENCE_LENGTH :: nat where "MIN_SEQUENCE_LENGTH = 4"

datatype detector = quadratic | constant_diff | constant_ratio | alternating

text \<open>
  The error and warning strings are template literals; each template is a constructor
  that carries the interpolated values, so two messages are equal exactly when the
  strings are built from the same template with the same values.
\<close>

datatype message =
    NoSequences                        \<comment> \<open>\<^verbatim>\<open>No sequences provided\<close>\<close>
  | SequenceTooShort nat               \<comment> \<open>\<^verbatim>\<open>Sequence i has fewer than 4 terms\<close>\<close>
  | TermNotInteger nat nat real        \<comment> \<open>\<^verbatim>\<open>Sequence i, term j is not an integer: v\<close>\<close>
  | TermOutOfBounds nat nat real       \<comment> \<open>\<^verbatim>\<open>Sequence i, term j is out of bounds: v\<close>\<close>
  | AnswersCountMismatch               \<comment> \<open>\<^verbatim>\<open>Answers count does not match sequences count\<close>\<close>
  | AnswerNotInteger nat real          \<comment> \<open>\<^verbatim>\<open>Answer i is not an integer: v\<close>\<close>
  | AnswerOutOfBounds nat real         \<comment> \<open>\<^verbatim>\<open>Answer i is out of bounds: v\<close>\<close>
  | HintsRequired                      \<comment> \<open>\<^verbatim>\<open>Exactly 2 hints are required\<close>\<close>
  | ExplanationTooShort                \<comment> \<open>\<^verbatim>\<open>Explanation is too short or missing\<close>\<close>
  | ConstantDifferenceEasy             \<comment> \<open>\<^verbatim>\<open>Primary sequence has constant difference - may be too easy\<close>\<close>
  | ConstantRatioEasy                  \<comment> \<open>\<^verbatim>\<open>Primary sequence has constant ratio - may be too easy\<close>\<close>
  | Ambiguous detector real "real option"
      \<comment> \<open>\<^verbatim>\<open>Ambiguous: m pattern predicts v instead of a and fits all sequences\<close>\<close>
  | AlternativeDisambiguated detector real
      \<comment> \<open>\<^verbatim>\<open>Alternative m pattern predicts v but is disambiguated by other sequences\<close>\<close>

record ValidationResult =
  valid :: bool
  errors :: "message list"
  warnings :: "message list"

subsection \<open>validateStructure\<close>

definition termErrors :: "nat \<Rightarrow> nat \<Rightarrow> real \<Rightarrow> message list" where
  "termErrors i j val =
     (if \<not> isInteger val then [TermNotInteger (i + 1) (j + 1) val] else []) @
     (if val < MIN_VALUE \<or> val > MAX_VALUE then [TermOutOfBounds (i + 1) (j + 1) val] else [])"

fun termLoop :: "nat \<Rightarrow> nat \<Rightarrow> real list \<Rightarrow> message list" where
  "termLoop i j [] = []"
| "termLoop i j (val # rest) = termErrors i j val @ termLoop i (j + 1) rest"

fun sequenceLoop :: "nat \<Rightarrow> real list list \<Rightarrow> message list" where
  "sequenceLoop i [] = []"
| "sequenceLoop i (seq # rest) =
     (if length seq < MIN_SEQUENCE_LENGTH then [SequenceTooShort (i + 1)] else []) @
     termLoop i 0 seq @ sequenceLoop (i + 1) rest"

definition answerErrors :: "nat \<Rightarrow> real \<Rightarrow> message list" where
  "answerErrors i ans =
     (if \<not> isInteger ans then [AnswerNotInteger (i + 1) ans] else []) @
     (if ans < MIN_VALUE \<or> ans > MAX_VALUE then [AnswerOutOfBounds (i + 1) ans] else [])"

fun answerLoop :: "nat \<Rightarrow> real list \<Rightarrow> message list" where
  "answerLoop i [] = []"
| "answerLoop i (ans # rest) = answerErrors i ans @ answerLoop (i + 1) rest"

definition structureErrors :: "PuzzleData \<Rightarrow> message list" where
  "structureErrors puzzle =
     (if sequences puzzle = [] then [NoSequences] else sequenceLoop 0 (sequences puzzle)) @
     (if length (answers puzzle) \<noteq> length (sequences puzzle) then [AnswersCountMismatch]
      else answerLoop 0 (answers puzzle)) @
     (if length (hints puzzle) \<noteq> 2 then [HintsRequired] else []) @
     (if length (explanation puzzle) < 10 then [ExplanationTooShort] else [])"

definition validateStructure :: "PuzzleData \<Rightarrow> ValidationResult" where
  "validateStructure puzzle =
     (let errors = structureErrors puzzle
      in \<lparr>valid = (length errors = 0), errors = errors, warnings = []\<rparr>)"

subsection \<open>fitQuadratic\<close>

record PowerSums =
  sumX0 :: real
  sumX1 :: real
  sumX2 :: real
  sumX3 :: real
  sumX4 :: real
  sumY :: real
  sumX1Y :: real
  sumX2Y :: real

definition noSums :: PowerSums where
  "noSums = \<lparr>sumX0 = 0, sumX1 = 0, sumX2 = 0, sumX3 = 0, sumX4 = 0,
             sumY = 0, sumX1Y = 0, sumX2Y = 0\<rparr>"

fun sumLoop :: "nat \<Rightarrow> real list \<Rightarrow> PowerSums \<Rightarrow> PowerSums" where
  "sumLoop i [] s = s"
| "sumLoop i (y # rest) s =
     (let x = real (i + 1); x2 = x * x; x3 = x2 * x; x4 = x3 * x
      in sumLoop (i + 1) rest
           \<lparr>sumX0 = sumX0 s + 1, sumX1 = sumX1 s + x, sumX2 = sumX2 s + x2,
            sumX3 = sumX3 s + x3, sumX4 = sumX4 s + x4, sumY = sumY s + y,
            sumX1Y = sumX1Y s + x * y, sumX2Y = sumX2Y s + x2 * y\<rparr>)"

fun errorLoop :: "nat \<Rightarrow> real list \<Rightarrow> real \<Rightarrow> real \<Rightarrow> real \<Rightarrow> real \<Rightarrow> real" where
  "errorLoop i [] qa qb qc err = err"
| "errorLoop i (y # rest) qa qb qc err =
     (let x = real (i + 1); predicted = qa * x * x + qb * x + qc
      in errorLoop (i + 1) rest qa qb qc (err + \<bar>y - predicted\<bar>))"

text \<open>
  In the result, a coefficient or \<open>nextValue\<close> that is \<open>None\<close> is \<^verbatim>\<open>NaN\<close>, and an
  \<open>error\<close> that is \<open>None\<close> is \<^verbatim>\<open>Infinity\<close>. The singular branch divides by \<open>n - 1\<close>:
  with no term it computes \<^verbatim>\<open>(undefined - undefined) / -1\<close> and with one term \<^verbatim>\<open>0 / 0\<close>,
  both \<^verbatim>\<open>NaN\<close>.
\<close>

record QuadraticFit =
  coefficients :: "real option \<times> real option \<times> real option"
  nextValue :: "real option"
  error :: "real option"

definition fitQuadratic :: "real list \<Rightarrow> QuadraticFit" where
  "fitQuadratic sequence =
     (let n = length sequence;
          s = sumLoop 0 sequence noSums;
          det = sumX0 s * (sumX2 s * sumX4 s - sumX3 s * sumX3 s)
              - sumX1 s * (sumX1 s * sumX4 s - sumX3 s * sumX2 s)
              + sumX2 s * (sumX1 s * sumX3 s - sumX2 s * sumX2 s)
      in if \<bar>det\<bar> < 1 / 10 ^ 10 then
           (if n < 2 then
              \<lparr>coefficients = (Some 0, None, None), nextValue = None, error = None\<rparr>
            else
              let linearSlope = (sequence ! (n - 1) - sequence ! 0) / real (n - 1);
                  linearIntercept = sequence ! 0 - linearSlope
              in \<lparr>coefficients = (Some 0, Some linearSlope, Some linearIntercept),
                  nextValue = Some (Math_round (sequence ! 0 + linearSlope * real n)),
                  error = None\<rparr>)
         else
           let detC = sumY s * (sumX2 s * sumX4 s - sumX3 s * sumX3 s)
                    - sumX1 s * (sumX1Y s * sumX4 s - sumX3 s * sumX2Y s)
                    + sumX2 s * (sumX1Y s * sumX3 s - sumX2 s * sumX2Y s);
               detB = sumX0 s * (sumX1Y s * sumX4 s - sumX3 s * sumX2Y s)
                    - sumY s * (sumX1 s * sumX4 s - sumX3 s * sumX2 s)
                    + sumX2 s * (sumX1 s * sumX2Y s - sumX1Y s * sumX2 s);
               detA = sumX0 s * (sumX2 s * sumX2Y s - sumX1Y s * sumX3 s)
                    - sumX1 s * (sumX1 s * sumX2Y s - sumX1Y s * sumX2 s)
                    + sumY s * (sumX1 s * sumX3 s - sumX2 s * sumX2 s);
               qc = detC / det;
               qb = detB / det;
               qa = detA / det;
               err = errorLoop 0 sequence qa qb qc 0;
               nextX = real (n + 1)
           in \<lparr>coefficients = (Some qa, Some qb, Some qc),
               nextValue = Some (Math_round (qa * nextX * nextX + qb * nextX + qc)),
               error = Some (err / real n)\<rparr>)"

subsection \<open>The three difference and ratio detectors\<close>

fun consecutive :: "(real \<Rightarrow> real \<Rightarrow> real) \<Rightarrow> real list \<Rightarrow> real list" where
  \<comment> \<open>\<^verbatim>\<open>for (i = 1; i < length; i++) out.push(f(sequence[i], sequence[i - 1]))\<close>\<close>
  "consecutive f (x # y # rest) = f y x # consecutive f (y # rest)"
| "consecutive f _ = []"

record ConstantDifference =
  isConstant :: bool
  difference :: "real option"
  nextValue :: "real option"

definition checkConstantDifference :: "real list \<Rightarrow> ConstantDifference" where
  "checkConstantDifference sequence =
     (if length sequence < 2 then
        \<lparr>isConstant = False, difference = None, nextValue = None\<rparr>
      else
        let differences = consecutive (\<lambda>cur prv. cur - prv) sequence;
            allSame = list_all (\<lambda>d. d = hd differences) differences
        in if allSame then
             \<lparr>isConstant = True, difference = Some (hd differences),
              nextValue = Some (last sequence + hd differences)\<rparr>
           else \<lparr>isConstant = False, difference = None, nextValue = None\<rparr>)"

record ConstantRatio =
  isConstant :: bool
  ratio :: "real option"
  nextValue :: "real option"

definition checkConstantRatio :: "real list \<Rightarrow> ConstantRatio" where
  "checkConstantRatio sequence =
     (if length sequence < 2 \<or> list_ex (\<lambda>v. v = 0) sequence then
        \<lparr>isConstant = False, ratio = None, nextValue = None\<rparr>
      else
        let ratios = consecutive (\<lambda>cur prv. cur / prv) sequence;
            allSame = list_all (\<lambda>r. \<bar>r - hd ratios\<bar> < 1 / 10000) ratios
        in if allSame \<and> isInteger (Math_round (hd ratios)) then
             let ratio = Math_round (hd ratios)
             in \<lparr>isConstant = True, ratio = Some ratio,
                 nextValue = Some (last sequence * ratio)\<rparr>
           else \<lparr>isConstant = False, ratio = None, nextValue = None\<rparr>)"

fun everyOther :: "real list \<Rightarrow> real list" where
  \<comment> \<open>the entries at the indices 0, 2, 4, ...\<close>
  "everyOther (x # y # rest) = x # everyOther rest"
| "everyOther xs = xs"

record AlternatingPattern =
  isAlternating :: bool
  pattern :: "(real \<times> real) option"  \<comment> \<open>\<open>(addValue, subtractValue)\<close>\<close>
  nextValue :: "real option"

definition checkAlternatingPattern :: "real list \<Rightarrow> AlternatingPattern" where
  "checkAlternatingPattern sequence =
     (if length sequence < 4 then
        \<lparr>isAlternating = False, pattern = None, nextValue = None\<rparr>
      else
        let differences = consecutive (\<lambda>cur prv. cur - prv) sequence;
            evenDiffs = everyOther differences;
            oddDiffs = everyOther (tl differences);
            evenAllSame = list_all (\<lambda>d. d = hd evenDiffs) evenDiffs;
            oddAllSame = list_all (\<lambda>d. d = hd oddDiffs) oddDiffs
        in if evenAllSame \<and> oddAllSame \<and> hd evenDiffs \<noteq> hd oddDiffs then
             let nextDiffIndex = length differences;
                 nextDiff = (if nextDiffIndex mod 2 = 0 then hd evenDiffs else hd oddDiffs)
             in \<lparr>isAlternating = True,
                 pattern = Some (max (hd evenDiffs) (hd oddDiffs), min (hd evenDiffs) (hd oddDiffs)),
                 nextValue = Some (last sequence + nextDiff)\<rparr>
           else \<lparr>isAlternating = False, pattern = None, nextValue = None\<rparr>)"

text \<open>
  With at least four terms there are at least three differences, so both filtered lists
  are non-empty and \<open>hd\<close> reads what \<^verbatim>\<open>evenDiffs[0]\<close> and \<^verbatim>\<open>oddDiffs[0]\<close> read.
\<close>

subsection \<open>validateDifficulty\<close>

definition validateDifficulty :: "PuzzleData \<Rightarrow> failure + ValidationResult" where
  "validateDifficulty puzzle =
     (case element (sequences puzzle) (primarySequenceIndex puzzle) of
        None \<Rightarrow> Inl TypeError
      | Some primarySeq \<Rightarrow>
          let primaryAnswer = element (answers puzzle) (primarySequenceIndex puzzle);
              constDiff = checkConstantDifference primarySeq;
              constRatio = checkConstantRatio primarySeq;
              errors = [];
              warnings =
                (if ConstantDifference.isConstant constDiff
                    \<and> strictEq (ConstantDifference.nextValue constDiff) primaryAnswer
                 then [ConstantDifferenceEasy] else []) @
                (if ConstantRatio.isConstant constRatio
                    \<and> strictEq (ConstantRatio.nextValue constRatio) primaryAnswer
                 then [ConstantRatioEasy] else [])
          in Inr \<lparr>valid = (length errors = 0), errors = errors, warnings = warnings\<rparr>)"

text \<open>
  An index outside \<open>sequences\<close> makes \<^verbatim>\<open>primarySeq\<close> undefined, and the first detector
  reads \<^verbatim>\<open>sequence.length\<close> of it: a TypeError.
\<close>

subsection \<open>validateAmbiguity\<close>

definition alternatives :: "real list \<Rightarrow> real option \<Rightarrow> (detector \<times> real) list" where
  "alternatives primarySeq intendedAnswer =
     (let quadFit = fitQuadratic primarySeq;
          constDiff = checkConstantDifference primarySeq;
          constRatio = checkConstantRatio primarySeq;
          altPattern = checkAlternatingPattern primarySeq
      in (case (error quadFit, QuadraticFit.nextValue quadFit) of
            (Some e, Some v) \<Rightarrow>
              if e < 1 / 2 \<and> \<not> strictEq (Some v) intendedAnswer then [(quadratic, v)] else []
          | _ \<Rightarrow> []) @
         (case ConstantDifference.nextValue constDiff of
            Some v \<Rightarrow>
              if ConstantDifference.isConstant constDiff \<and> \<not> strictEq (Some v) intendedAnswer
              then [(constant_diff, v)] else []
          | None \<Rightarrow> []) @
         (case ConstantRatio.nextValue constRatio of
            Some v \<Rightarrow>
              if ConstantRatio.isConstant constRatio \<and> \<not> strictEq (Some v) intendedAnswer
              then [(constant_ratio, v)] else []
          | None \<Rightarrow> []) @
         (case AlternatingPattern.nextValue altPattern of
            Some v \<Rightarrow>
              if isAlternating altPattern \<and> \<not> strictEq (Some v) intendedAnswer
              then [(alternating, v)] else []
          | None \<Rightarrow> []))"

text \<open>
  The \<open>None\<close> cases push nothing, as the source does: an infinite fit error is not below
  0.5, and a detector's \<open>nextValue\<close> is \<^verbatim>\<open>null\<close> only together with a false flag.
\<close>

fun mismatch :: "detector \<Rightarrow> real list \<Rightarrow> real option \<Rightarrow> bool" where
  \<comment> \<open>the condition under which the inner loop sets \<^verbatim>\<open>fitsAllSequences = false\<close>;
      \<^verbatim>\<open>Math.abs(x - y) > 0.5\<close> is false when \<open>x\<close> is \<^verbatim>\<open>NaN\<close> or \<open>y\<close> is \<^verbatim>\<open>undefined\<close>\<close>
  "mismatch quadratic seq actualAnswer =
     (case (QuadraticFit.nextValue (fitQuadratic seq), actualAnswer) of
        (Some v, Some ans) \<Rightarrow> \<bar>v - ans\<bar> > 1 / 2
      | _ \<Rightarrow> False)"
| "mismatch constant_diff seq actualAnswer =
     (let check = checkConstantDifference seq
      in \<not> ConstantDifference.isConstant check
         \<or> \<not> strictEq (ConstantDifference.nextValue check) actualAnswer)"
| "mismatch constant_ratio seq actualAnswer =
     (let check = checkConstantRatio seq
      in \<not> ConstantRatio.isConstant check
         \<or> \<not> strictEq (ConstantRatio.nextValue check) actualAnswer)"
| "mismatch alternating seq actualAnswer =
     (let check = checkAlternatingPattern seq
      in \<not> isAlternating check
         \<or> \<not> strictEq (AlternatingPattern.nextValue check) actualAnswer)"

fun fitsAllSequences :: "detector \<Rightarrow> nat \<Rightarrow> real list list \<Rightarrow> real list \<Rightarrow> bool" where
  \<comment> \<open>the inner loop from index \<open>i\<close> on, leaving at the first mismatch\<close>
  "fitsAllSequences m i [] stated = True"
| "fitsAllSequences m i (seq # rest) stated =
     (if mismatch m seq (element stated i) then False
      else fitsAllSequences m (i + 1) rest stated)"

fun alternativeLoop ::
  "PuzzleData \<Rightarrow> real option \<Rightarrow> (detector \<times> real) list \<Rightarrow> message list \<times> message list
     \<Rightarrow> message list \<times> message list" where
  "alternativeLoop puzzle intendedAnswer [] (errs, warns) = (errs, warns)"
| "alternativeLoop puzzle intendedAnswer ((m, v) # rest) (errs, warns) =
     (if fitsAllSequences m 0 (sequences puzzle) (answers puzzle)
      then alternativeLoop puzzle intendedAnswer rest
             (errs @ [Ambiguous m v intendedAnswer], warns)
      else alternativeLoop puzzle intendedAnswer rest
             (errs, warns @ [AlternativeDisambiguated m v]))"

definition validateAmbiguity :: "PuzzleData \<Rightarrow> failure + ValidationResult" where
  "validateAmbiguity puzzle =
     (case element (sequences puzzle) (primarySequenceIndex puzzle) of
        None \<Rightarrow> Inl TypeError
      | Some primarySeq \<Rightarrow>
          let intendedAnswer = element (answers puzzle) (primarySequenceIndex puzzle);
              (errors, warnings) =
                alternativeLoop puzzle intendedAnswer
                  (alternatives primarySeq intendedAnswer) ([], [])
          in Inr \<lparr>valid = (length errors = 0), errors = errors, warnings = warnings\<rparr>)"

subsection \<open>validatePuzzle\<close>

definition validatePuzzle :: "PuzzleData \<Rightarrow> failure + ValidationResult" where
  "validatePuzzle puzzle =
     (let structureResult = validateStructure puzzle
      in if valid structureResult then
           (case validateDifficulty puzzle of
              Inl e \<Rightarrow> Inl e
            | Inr difficultyResult \<Rightarrow>
                (case validateAmbiguity puzzle of
                   Inl e \<Rightarrow> Inl e
                 | Inr ambiguityResult \<Rightarrow>
                     let allErrors = errors structureResult @ errors difficultyResult
                                       @ errors ambiguityResult;
                         allWarnings = warnings structureResult @ warnings difficultyResult
                                       @ warnings ambiguityResult
                     in Inr \<lparr>valid = (length allErrors = 0), errors = allErrors,
                             warnings = allWarnings\<rparr>))
         else
           Inr \<lparr>valid = (length (errors structureResult) = 0),
                errors = errors structureResult, warnings = warnings structureResult\<rparr>)"

section \<open>Evaluator (evaluators.ts)\<close>

definition nullish :: "'a option \<Rightarrow> 'a \<Rightarrow> 'a" where
  \<comment> \<open>\<^verbatim>\<open>x ?? d\<close>\<close>
  "nullish x d = (case x of Some v \<Rightarrow> v | None \<Rightarrow> d)"

definition emptyParams :: RuleProgramParams where
  \<comment> \<open>the object \<^verbatim>\<open>{}\<close>\<close>
  "emptyParams =
     \<lparr>RuleProgramParams.difference = None, RuleProgramParams.ratio = None, initialDiff = None,
      diffIncrement = None, secondDifference = None, operations = None, oddMultiplier = None,
      oddAddend = None, evenMultiplier = None, evenAddend = None, a = None, b = None, c = None,
      cubicA = None, cubicB = None, cubicC = None, cubicD = None, multiplier = None,
      addend = None, prevMultiplier = None, prev2Multiplier = None, digitSumMultiplier = None,
      digitSumAddend = None, multiplyFactor = None, addFactor = None, base = None,
      exponent = None, powerType = None, startingValues = None\<rparr>"

text \<open>
  \<open>exponent\<close> is a natural number in this model: \<^verbatim>\<open>position ** exp\<close> with a fractional
  or negative exponent needs real powers, and nothing below depends on them.
\<close>

fun digitsOf :: "nat \<Rightarrow> nat" where
  \<comment> \<open>the sum of the decimal digits\<close>
  "digitsOf n = (if n < 10 then n else n mod 10 + digitsOf (n div 10))"

declare digitsOf.simps [simp del]

text \<open>
  A term the evaluator computes can be \<^verbatim>\<open>NaN\<close>: the parameters and the starting values
  are numbers, but the first term of a sequence without starting values is computed
  from \<^verbatim>\<open>undefined\<close>, and the digit sum of a fraction is \<^verbatim>\<open>NaN\<close>. The sequences the
  evaluator works on are therefore lists of \<open>number\<close>, and its arithmetic is the
  arithmetic of reals with \<^verbatim>\<open>NaN\<close> absorbing.
\<close>

datatype number = Num real | NaN

fun nplus :: "number \<Rightarrow> number \<Rightarrow> number" where
  "nplus (Num x) (Num y) = Num (x + y)"
| "nplus _ _ = NaN"

fun nminus :: "number \<Rightarrow> number \<Rightarrow> number" where
  "nminus (Num x) (Num y) = Num (x - y)"
| "nminus _ _ = NaN"

fun ntimes :: "number \<Rightarrow> number \<Rightarrow> number" where
  "ntimes (Num x) (Num y) = Num (x * y)"
| "ntimes _ _ = NaN"

fun digitSum :: "number \<Rightarrow> number" where
  \<comment> \<open>\<^verbatim>\<open>Math.abs(n).toString()\<close> is a string of digits for an integer below \<open>10\<^sup>2\<^sup>1\<close>;
      otherwise it holds a point, an exponent or the letters of \<^verbatim>\<open>NaN\<close>, whose
      \<^verbatim>\<open>parseInt\<close> is \<^verbatim>\<open>NaN\<close>\<close>
  "digitSum (Num n) =
     (if isInteger n \<and> \<bar>n\<bar> < 10 ^ 21 then Num (real (digitsOf (nat \<lfloor>\<bar>n\<bar>\<rfloor>))) else NaN)"
| "digitSum NaN = NaN"

definition prev :: "number list \<Rightarrow> number" where
  \<comment> \<open>\<^verbatim>\<open>sequence[sequence.length - 1]\<close>; for the empty sequence it is \<^verbatim>\<open>undefined\<close>, which
      every arithmetic expression below turns into \<^verbatim>\<open>NaN\<close>\<close>
  "prev sq = (if sq = [] then NaN else last sq)"

definition prev2 :: "number list \<Rightarrow> number" where
  "prev2 sq = (if length sq \<ge> 2 then sq ! (length sq - 2) else Num 0)"

definition prev3 :: "number list \<Rightarrow> number" where
  "prev3 sq = (if length sq \<ge> 3 then sq ! (length sq - 3) else Num 0)"

definition defaultOperations :: "(op_kind \<times> real) list" where
  "defaultOperations = [(add, 2), (subtract, 1)]"

fun evaluateNextValue ::
  "number list \<Rightarrow> RuleProgramType \<Rightarrow> RuleProgramParams \<Rightarrow> nat \<Rightarrow> failure + number" where
  "evaluateNextValue sq ARITHMETIC_SEQUENCE params position =
     Inr (nplus (prev sq) (Num (nullish (RuleProgramParams.difference params) 0)))"
| "evaluateNextValue sq GEOMETRIC_SEQUENCE params position =
     Inr (ntimes (prev sq) (Num (nullish (RuleProgramParams.ratio params) 1)))"
| "evaluateNextValue sq LINEAR_DIFF params position =
     (let n = real (length sq);
          nextDiff = nullish (initialDiff params) 1 + (n - 1) * nullish (diffIncrement params) 1
      in Inr (nplus (prev sq) (Num nextDiff)))"
| "evaluateNextValue sq SECOND_ORDER_CONSTANT params position =
     (let secondDiff = nullish (secondDifference params) 2
      in if length sq < 2 then Inr (nplus (prev sq) (Num secondDiff))
         else
           let lastDiff = nminus (prev sq) (prev2 sq);
               nextDiff = nplus lastDiff (Num secondDiff)
           in Inr (nplus (prev sq) nextDiff))"
| "evaluateNextValue sq ALTERNATING_OPS params position =
     (let ops = nullish (operations params) defaultOperations
      in if ops = [] then Inl TypeError
         else if sq = [] \<and> length ops \<noteq> 1 then Inl TypeError
         else
           let opIndex = (if sq = [] then 0 else (length sq - 1) mod length ops);
               operation = ops ! opIndex
           in Inr (case fst operation of
                     add \<Rightarrow> nplus (prev sq) (Num (snd operation))
                   | subtract \<Rightarrow> nminus (prev sq) (Num (snd operation))
                   | multiply \<Rightarrow> ntimes (prev sq) (Num (snd operation))))"
| "evaluateNextValue sq ALTERNATING_PARITY params position =
     (if position mod 2 = 1
      then Inr (nplus (ntimes (prev sq) (Num (nullish (oddMultiplier params) 1)))
                      (Num (nullish (oddAddend params) 1)))
      else Inr (nplus (ntimes (prev sq) (Num (nullish (evenMultiplier params) 1)))
                      (Num (nullish (evenAddend params) 2))))"
| "evaluateNextValue sq POSITIONAL_FORMULA params position =
     Inr (Num (nullish (a params) 0 * real position * real position
               + nullish (b params) 1 * real position + nullish (c params) 0))"
| "evaluateNextValue sq CUBIC_POSITIONAL params position =
     Inr (Num (nullish (cubicA params) 0 * real position ^ 3
               + nullish (cubicB params) 0 * real position ^ 2
               + nullish (cubicC params) 1 * real position + nullish (cubicD params) 0))"
| "evaluateNextValue sq RECURSIVE_LINEAR params position =
     Inr (nplus (ntimes (Num (nullish (multiplier params) 2)) (prev sq))
                (Num (nullish (addend params) 0)))"
| "evaluateNextValue sq FIBONACCI_LIKE params position =
     Inr (nplus (ntimes (Num (nullish (prevMultiplier params) 1)) (prev sq))
                (ntimes (Num (nullish (prev2Multiplier params) 1)) (prev2 sq)))"
| "evaluateNextValue sq TRIBONACCI_LIKE params position =
     Inr (nplus (nplus (prev sq) (prev2 sq)) (prev3 sq))"
| "evaluateNextValue sq DIGIT_SUM_BASED params position =
     Inr (nplus (prev sq)
            (nplus (ntimes (digitSum (prev sq)) (Num (nullish (digitSumMultiplier params) 1)))
                   (Num (nullish (digitSumAddend params) 0))))"
| "evaluateNextValue sq MULTIPLY_THEN_ADD params position =
     Inr (nplus (ntimes (prev sq) (Num (nullish (multiplyFactor params) 2)))
                (Num (nullish (addFactor params) 1)))"
| "evaluateNextValue sq POWER_BASED params position =
     (case nullish (powerType params) n_squared_plus of
        n_to_k \<Rightarrow> Inr (Num (real position ^ nullish (exponent params) 2))
      | k_to_n \<Rightarrow> Inr (Num (nullish (base params) 2 ^ position))
      | n_squared_plus \<Rightarrow> Inr (Num (real position ^ 2 + nullish (base params) 2)))"
| "evaluateNextValue sq (UNRECOGNIZED token) params position =
     Inl (UnknownRule (UNRECOGNIZED token))"

text \<open>
  In \<open>ALTERNATING_OPS\<close> the index \<^verbatim>\<open>(sequence.length - 1) % operations.length\<close> is
  \<^verbatim>\<open>NaN\<close> for an empty operation list and \<open>-1\<close> for an empty sequence with two or more
  operations; \<^verbatim>\<open>operations[...]\<close> is then \<^verbatim>\<open>undefined\<close> and reading \<^verbatim>\<open>.op\<close> of it throws.
  With one operation and no term the index is \<open>-0\<close>, the operation is found, and the result
  is \<^verbatim>\<open>NaN\<close>.
\<close>

subsection \<open>Rounding of a sum to a double\<close>

text \<open>
  The sums that spread the starting values are rounded as the addition of two doubles
  rounds them: to the nearest number with a significand of 53 bits, a tie going to the
  even significand. The exponent range is left unbounded (no overflow to \<^verbatim>\<open>Infinity\<close>,
  no subnormal numbers). Elsewhere the arithmetic is exact, as said at the start.
\<close>

function bitLength :: "int \<Rightarrow> nat" where
  \<comment> \<open>the number of binary digits of a positive integer\<close>
  "bitLength n = (if n \<le> 0 then 0 else Suc (bitLength (n div 2)))"
  by pat_completeness auto
termination
  by (relation "measure nat") auto

declare bitLength.simps [simp del]

definition binade :: "real \<Rightarrow> int" where
  \<comment> \<open>for \<open>x \<noteq> 0\<close> the exponent \<open>e\<close> with \<open>2\<^sup>e \<le> |x| < 2\<^sup>e\<^sup>+\<^sup>1\<close>\<close>
  "binade x =
     (if 1 \<le> \<bar>x\<bar> then int (bitLength \<lfloor>\<bar>x\<bar>\<rfloor>) - 1
      else - int (bitLength (\<lceil>1 / \<bar>x\<bar>\<rceil> - 1)))"

definition pow2 :: "int \<Rightarrow> real" where
  "pow2 k = (if 0 \<le> k then 2 ^ nat k else 1 / 2 ^ nat (- k))"

definition roundEven :: "real \<Rightarrow> int" where
  "roundEven r =
     (let f = \<lfloor>r\<rfloor>
      in if r - of_int f < 1 / 2 then f
         else if r - of_int f > 1 / 2 then f + 1
         else if even f then f else f + 1)"

definition fl :: "real \<Rightarrow> real" where
  "fl x = (if x = 0 then 0
           else let ulp = pow2 (binade x - 52) in ulp * of_int (roundEven (x / ulp)))"

subsection \<open>generateSequence and generateMultipleSequences\<close>

record GeneratedSequence =
  sequence :: "number list"
  nextValue :: number

definition isPositional :: "RuleProgramType \<Rightarrow> bool" where
  "isPositional ruleType \<longleftrightarrow>
     ruleType = POSITIONAL_FORMULA \<or> ruleType = CUBIC_POSITIONAL \<or> ruleType = POWER_BASED"

fun positionLoop ::
  "RuleProgramType \<Rightarrow> RuleProgramParams \<Rightarrow> nat \<Rightarrow> nat \<Rightarrow> number list
     \<Rightarrow> failure + number list" where
  \<comment> \<open>\<^verbatim>\<open>for (i = ...; i <= length; i++) sequence.push(evaluateNextValue(sequence, ..., i))\<close>,
      with \<open>k\<close> the number of turns left\<close>
  "positionLoop ruleType params 0 i sq = Inr sq"
| "positionLoop ruleType params (Suc k) i sq =
     (case evaluateNextValue sq ruleType params i of
        Inl e \<Rightarrow> Inl e
      | Inr v \<Rightarrow> positionLoop ruleType params k (i + 1) (sq @ [v]))"

function whileLoop ::
  "RuleProgramType \<Rightarrow> RuleProgramParams \<Rightarrow> nat \<Rightarrow> number list \<Rightarrow> failure + number list" where
  "whileLoop ruleType params len sq =
     (if length sq < len then
        (case evaluateNextValue sq ruleType params (length sq + 1) of
           Inl e \<Rightarrow> Inl e
         | Inr nextVal \<Rightarrow> whileLoop ruleType params len (sq @ [nextVal]))
      else Inr sq)"
  by pat_completeness auto
termination
  by (relation "measure (\<lambda>(ruleType, params, len, sq). len - length sq)") auto

declare whileLoop.simps [simp del]

definition generateSequence ::
  "RuleProgramType \<Rightarrow> RuleProgramParams \<Rightarrow> nat \<Rightarrow> real list option
     \<Rightarrow> failure + GeneratedSequence" where
  "generateSequence ruleType params len givenStart =
     (let filled =
            (if isPositional ruleType then positionLoop ruleType params len 1 []
             else
               let startVals =
                     (case givenStart of
                        Some vs \<Rightarrow> vs
                      | None \<Rightarrow> nullish (startingValues params) [1])
               in whileLoop ruleType params len
                    (map Num (take (min (length startVals) len) startVals)))
      in case filled of
           Inl e \<Rightarrow> Inl e
         | Inr sq \<Rightarrow>
             (case evaluateNextValue sq ruleType params (len + 1) of
                Inl e \<Rightarrow> Inl e
              | Inr nv \<Rightarrow> Inr \<lparr>sequence = sq, nextValue = nv\<rparr>))"

fun forEach :: "nat \<Rightarrow> nat \<Rightarrow> (nat \<Rightarrow> failure + 'a) \<Rightarrow> failure + 'a list" where
  \<comment> \<open>\<^verbatim>\<open>for (i = ...; i < count; i++) out.push(body(i))\<close>, with \<open>k\<close> the number of turns left;
      the first failure leaves the loop\<close>
  "forEach i 0 body = Inr []"
| "forEach i (Suc k) body =
     (case body i of
        Inl e \<Rightarrow> Inl e
      | Inr x \<Rightarrow> (case forEach (i + 1) k body of Inl e \<Rightarrow> Inl e | Inr xs \<Rightarrow> Inr (x # xs)))"

fun mapIndexed :: "(real \<Rightarrow> nat \<Rightarrow> real) \<Rightarrow> nat \<Rightarrow> real list \<Rightarrow> real list" where
  \<comment> \<open>\<^verbatim>\<open>xs.map((v, idx) => f(v, idx))\<close>, from the index given\<close>
  "mapIndexed f idx [] = []"
| "mapIndexed f idx (v # rest) = f v idx # mapIndexed f (idx + 1) rest"

definition variedStart :: "real list \<Rightarrow> nat \<Rightarrow> real list" where
  "variedStart baseStartValues i =
     mapIndexed (\<lambda>v idx. fl (v + real (i * (idx + 1) * 2))) 0 baseStartValues"

definition generateMultipleSequences ::
  "RuleProgramType \<Rightarrow> RuleProgramParams \<Rightarrow> nat \<Rightarrow> nat \<Rightarrow> failure + GeneratedSequence list" where
  "generateMultipleSequences ruleType params count len =
     (if ruleType = POSITIONAL_FORMULA \<or> ruleType = CUBIC_POSITIONAL then
        forEach 0 count (\<lambda>i.
          let modifiedParams =
                (if ruleType = POSITIONAL_FORMULA
                 then params\<lparr>c := Some (nullish (c params) 0 + real (i * 3))\<rparr>
                 else params\<lparr>cubicD := Some (nullish (cubicD params) 0 + real (i * 5))\<rparr>)
          in generateSequence ruleType modifiedParams len None)
      else if ruleType = POWER_BASED then
        forEach 0 count (\<lambda>i.
          let modifiedParams =
                (if powerType params = Some n_squared_plus
                 then params\<lparr>base := Some (nullish (base params) 0 + real (i * 2))\<rparr>
                 else params\<lparr>base := Some (nullish (base params) 2 + real i)\<rparr>)
          in generateSequence ruleType modifiedParams len None)
      else
        let baseStartValues = nullish (startingValues params) [1]
        in forEach 0 count (\<lambda>i.
             generateSequence ruleType params len (Some (variedStart baseStartValues i))))"

section \<open>Generation orchestrator (puzzle-generator.ts)\<close>

definition SEQUENCE_LENGTH :: nat where "SEQUENCE_LENGTH = 5"
definition NUM_SEQUENCES :: nat where "NUM_SEQUENCES = 5"
definition MAX_GENERATION_ATTEMPTS :: nat where "MAX_GENERATION_ATTEMPTS = 20"

text \<open>
  Strings are lists of 8-bit characters read as code units (\<^verbatim>\<open>charCodeAt\<close> is
  \<open>of_char\<close>); the multiplication sign and the superscript two of the fallback texts are
  the code units \<open>0xD7\<close> and \<open>0xB2\<close>.
\<close>

definition FALLBACK_PUZZLES :: "PuzzleData list" where
  "FALLBACK_PUZZLES =
    [\<lparr>ruleProgramType = SECOND_ORDER_CONSTANT,
      ruleProgramParams = emptyParams\<lparr>secondDifference := Some 3, startingValues := Some [2, 5]\<rparr>,
      tags = [''DIFFERENCES'', ''SECOND_ORDER'', ''INCREASING''],
      sequences = [[2, 5, 11, 20, 32], [1, 4, 10, 19, 31], [3, 7, 14, 24, 37],
                   [0, 3, 9, 18, 30], [5, 9, 16, 26, 39]],
      answers = [47, 46, 53, 45, 55],
      primarySequenceIndex = 0,
      hints = [''This pattern only uses addition, but the amount added changes each time.'',
               ''The amount you add increases by the same number each step.''],
      explanation = ''Each term adds an increasing amount. The differences are 3, 6, 9, 12, 15... (increasing by 3 each time). Next difference is 15, so 32 + 15 = 47.''\<rparr>,
     \<lparr>ruleProgramType = FIBONACCI_LIKE,
      ruleProgramParams = emptyParams\<lparr>prevMultiplier := Some 1, prev2Multiplier := Some 2,
                                       startingValues := Some [1, 3]\<rparr>,
      tags = [''RECURSIVE'', ''FIBONACCI'', ''INCREASING''],
      sequences = [[1, 3, 5, 11, 21], [2, 4, 8, 16, 32], [1, 2, 4, 7, 13],
                   [3, 5, 11, 21, 43], [2, 3, 7, 13, 27]],
      answers = [43, 64, 24, 85, 53],
      primarySequenceIndex = 0,
      hints = [''This uses addition and multiplication. Each number is calculated from the two before it.'',
               ''Try: current number + (2 '' @ [CHR 0xD7] @ '' the number before that).''],
      explanation = ''Each term equals the previous term plus twice the term before that: next = prev + 2''
                      @ [CHR 0xD7] @ ''prev2. So 21 + (2'' @ [CHR 0xD7] @ ''11) = 21 + 22 = 43.''\<rparr>,
     \<lparr>ruleProgramType = ALTERNATING_OPS,
      ruleProgramParams = emptyParams\<lparr>operations := Some [(multiply, 2), (add, 3)],
                                       startingValues := Some [1]\<rparr>,
      tags = [''ALTERNATING'', ''MIXED_SIGNS''],
      sequences = [[1, 2, 5, 10, 13], [2, 4, 7, 14, 17], [3, 6, 9, 18, 21],
                   [4, 8, 11, 22, 25], [5, 10, 13, 26, 29]],
      answers = [26, 34, 42, 50, 58],
      primarySequenceIndex = 0,
      hints = [''This uses both multiplication and addition, alternating between them.'',
               ''First multiply by 2, then add 3, then multiply by 2, then add 3...''],
      explanation = ''The sequence alternates: '' @ [CHR 0xD7] @ ''2, +3, '' @ [CHR 0xD7]
                      @ ''2, +3... So 13 '' @ [CHR 0xD7] @ '' 2 = 26.''\<rparr>,
     \<lparr>ruleProgramType = POSITIONAL_FORMULA,
      ruleProgramParams = emptyParams\<lparr>a := Some 1, b := Some 2, c := Some (- 1)\<rparr>,
      tags = [''POLYNOMIAL'', ''POSITIONAL'', ''INCREASING''],
      sequences = [[2, 7, 14, 23, 34], [5, 10, 17, 26, 37], [8, 13, 20, 29, 40],
                   [11, 16, 23, 32, 43], [14, 19, 26, 35, 46]],
      answers = [47, 50, 53, 56, 59],
      primarySequenceIndex = 0,
      hints = [''Each term is calculated using its position (1st, 2nd, 3rd...). Uses multiplication and addition.'',
               ''The formula involves squaring the position number.''],
      explanation = ''The nth term equals n'' @ [CHR 0xB2]
                      @ '' + 2n - 1. For position 6: 36 + 12 - 1 = 47.''\<rparr>,
     \<lparr>ruleProgramType = LINEAR_DIFF,
      ruleProgramParams = emptyParams\<lparr>initialDiff := Some 5, diffIncrement := Some 4,
                                       startingValues := Some [3]\<rparr>,
      tags = [''DIFFERENCES'', ''INCREASING''],
      sequences = [[3, 8, 17, 30, 47], [1, 6, 15, 28, 45], [5, 10, 19, 32, 49],
                   [2, 7, 16, 29, 46], [7, 12, 21, 34, 51]],
      answers = [68, 66, 70, 67, 72],
      primarySequenceIndex = 0,
      hints = [''This only uses addition. Calculate what you add each time to get to the next number.'',
               ''The differences between terms are: 5, 9, 13, 17... See the pattern?''],
      explanation = ''The differences are 5, 9, 13, 17, 21 (increasing by 4 each time). Next difference is 21, so 47 + 21 = 68.''\<rparr>]"

definition toInt32 :: "int \<Rightarrow> int" where
  \<comment> \<open>the conversion every bitwise operator applies: wrap to signed 32 bits\<close>
  "toInt32 x = (x + 2 ^ 31) mod 2 ^ 32 - 2 ^ 31"

fun hashLoop :: "string \<Rightarrow> int \<Rightarrow> int" where
  "hashLoop [] hash = hash"
| "hashLoop (ch # rest) hash =
     (let code = int (of_char ch);
          shifted = toInt32 (toInt32 hash * 2 ^ 5);  \<comment> \<open>\<^verbatim>\<open>hash << 5\<close>\<close>
          summed = shifted - hash + code
      in hashLoop rest (toInt32 summed))"           \<comment> \<open>\<^verbatim>\<open>hash & hash\<close>\<close>

definition hashDateToIndex :: "string \<Rightarrow> nat \<Rightarrow> nat" where
  \<comment> \<open>\<^verbatim>\<open>Math.abs(hash) % max\<close>; the only caller passes the catalog size 5\<close>
  "hashDateToIndex dateKey bound = nat (\<bar>hashLoop dateKey 0\<bar> mod int bound)"

definition needsStartingValues :: "RuleProgramType \<Rightarrow> bool" where
  "needsStartingValues ruleType \<longleftrightarrow>
     ruleType \<notin> set [POSITIONAL_FORMULA, CUBIC_POSITIONAL, POWER_BASED]"

function padLoop :: "real list \<Rightarrow> real list list \<Rightarrow> real list list" where
  "padLoop baseValues startingValueSets =
     (if length startingValueSets < NUM_SEQUENCES then
        padLoop baseValues
          (startingValueSets @
             [mapIndexed
                (\<lambda>v i. fl (v + real ((length startingValueSets + 1) * (i + 1) * 2))) 0
                baseValues])
      else startingValueSets)"
  by pat_completeness auto
termination
  by (relation "measure (\<lambda>(baseValues, sets). NUM_SEQUENCES - length sets)") auto

declare padLoop.simps [simp del]

fun numbers :: "number list \<Rightarrow> real list option" where
  \<comment> \<open>the terms as reals, when none of them is \<^verbatim>\<open>NaN\<close>\<close>
  "numbers [] = Some []"
| "numbers (Num x # rest) = (case numbers rest of None \<Rightarrow> None | Some xs \<Rightarrow> Some (x # xs))"
| "numbers (NaN # rest) = None"

fun collect :: "'a option list \<Rightarrow> 'a list option" where
  "collect [] = Some []"
| "collect (None # rest) = None"
| "collect (Some x # rest) = (case collect rest of None \<Rightarrow> None | Some xs \<Rightarrow> Some (x # xs))"

definition puzzleOf ::
  "RuleProgramType \<Rightarrow> RuleProgramParams \<Rightarrow> string list \<Rightarrow> string list \<Rightarrow> string
     \<Rightarrow> GeneratedSequence list \<Rightarrow> failure + PuzzleData" where
  \<comment> \<open>the object literal the builders return, from the sequences generated\<close>
  "puzzleOf ruleType params puzzleTags puzzleHints text generated =
     (case (collect (map (\<lambda>g. numbers (sequence g)) generated),
            numbers (map GeneratedSequence.nextValue generated)) of
        (Some seqs, Some stated) \<Rightarrow>
          Inr \<lparr>ruleProgramType = ruleType, ruleProgramParams = params, tags = puzzleTags,
               sequences = seqs, answers = stated, primarySequenceIndex = 0,
               hints = puzzleHints, explanation = text\<rparr>
      | _ \<Rightarrow> Inl NotANumber)"

text \<open>
  A puzzle is a record of real sequences and answers. Where the source builds a puzzle
  that holds \<^verbatim>\<open>NaN\<close>, nothing is thrown, and the model gives the failure \<open>NotANumber\<close>
  in its place: \<^verbatim>\<open>Number.isInteger(NaN)\<close> is false, so the structural check rejects
  every such puzzle.
\<close>

definition seededPuzzle ::
  "PuzzleGenerationResponse \<Rightarrow> real list list \<Rightarrow> failure + PuzzleData" where
  \<comment> \<open>the branch taken when \<open>needsStartingValues\<close> holds\<close>
  "seededPuzzle response startingValueSets =
     (let ruleType = PuzzleGenerationResponse.ruleProgramType response;
          params = PuzzleGenerationResponse.ruleProgramParams response
      in case forEach 0 NUM_SEQUENCES (\<lambda>i.
                let startVals =
                      (case element startingValueSets i of
                         Some vs \<Rightarrow> Some vs
                       | None \<Rightarrow> element startingValueSets 0);
                    paramsWithStart = params\<lparr>startingValues := startVals\<rparr>
                in case generateMultipleSequences ruleType paramsWithStart 1 SEQUENCE_LENGTH of
                     Inl e \<Rightarrow> Inl e
                   | Inr [] \<Rightarrow> Inl TypeError
                   | Inr (generated # _) \<Rightarrow> Inr generated) of
           Inl e \<Rightarrow> Inl e
         | Inr gs \<Rightarrow>
             puzzleOf ruleType params (PuzzleGenerationResponse.tags response)
               (PuzzleGenerationResponse.hints response)
               (PuzzleGenerationResponse.explanation response) gs)"

definition buildPuzzleFromAIResponse :: "PuzzleGenerationResponse \<Rightarrow> failure + PuzzleData" where
  "buildPuzzleFromAIResponse response =
     (let ruleType = PuzzleGenerationResponse.ruleProgramType response;
          params = PuzzleGenerationResponse.ruleProgramParams response;
          startingValueSets =
            padLoop (nullish (startingValues params) [1])
              (nullish (suggestedStartingValues response) [])
      in case generateMultipleSequences ruleType params NUM_SEQUENCES SEQUENCE_LENGTH of
           Inl e \<Rightarrow> Inl e
         | Inr generatedSequences \<Rightarrow>
             if needsStartingValues ruleType then seededPuzzle response startingValueSets
             else
               puzzleOf ruleType params (PuzzleGenerationResponse.tags response)
                 (PuzzleGenerationResponse.hints response)
                 (PuzzleGenerationResponse.explanation response) generatedSequences)"


definition recognized :: "RuleProgramType \<Rightarrow> bool" where
  \<comment> \<open>one of the fourteen members of the enumeration\<close>
  "recognized ruleType = (case ruleType of UNRECOGNIZED token \<Rightarrow> False | _ \<Rightarrow> True)"

definition schemaAccepts :: "PuzzleGenerationResponse \<Rightarrow> bool" where
  \<comment> \<open>\<^verbatim>\<open>PuzzleGenerationSchema\<close> of openrouter.ts, where the record leaves it room:
      \<^verbatim>\<open>z.nativeEnum(RuleProgramType)\<close> for the kind and a tuple of two strings for the hints\<close>
  "schemaAccepts reply \<longleftrightarrow>
     recognized (PuzzleGenerationResponse.ruleProgramType reply)
     \<and> length (PuzzleGenerationResponse.hints reply) = 2"

definition generatePuzzleWithAI ::
  "failure + PuzzleGenerationResponse \<Rightarrow> failure + PuzzleGenerationResponse" where
  \<comment> \<open>the end of \<^verbatim>\<open>callOpenRouter\<close>: the reply of the service, when there is one, goes
      through \<^verbatim>\<open>schema.parse\<close>, which throws on a reply it does not accept\<close>
  "generatePuzzleWithAI reply =
     (case reply of
        Inl e \<Rightarrow> Inl e
      | Inr parsed \<Rightarrow> if schemaAccepts parsed then Inr parsed else Inl ProposalFailure)"

text \<open>
  The padding loop runs only when fewer than \<open>NUM_SEQUENCES\<close> sets were suggested;
  \<open>padLoop\<close> returns the sets unchanged otherwise, which is the same. One proposal call
  is made per attempt; the service is a parameter \<open>ai\<close>, giving for the attempt numbered
  \<open>n\<close> either its reply or the failure of the call. The call is taken to return: a
  caller that needs a time limit puts it around the call.
\<close>

definition tryAttempt ::
  "failure + PuzzleGenerationResponse \<Rightarrow> failure + PuzzleData \<times> ValidationResult" where
  \<comment> \<open>the \<^verbatim>\<open>try\<close> block up to the validation; \<open>Inl\<close> is what the \<^verbatim>\<open>catch\<close> receives\<close>
  "tryAttempt reply =
     (case generatePuzzleWithAI reply of
        Inl e \<Rightarrow> Inl e
      | Inr aiResponse \<Rightarrow>
          (case buildPuzzleFromAIResponse aiResponse of
             Inl e \<Rightarrow> Inl e
           | Inr puzzle \<Rightarrow>
               (case validatePuzzle puzzle of
                  Inl e \<Rightarrow> Inl e
                | Inr validation \<Rightarrow> Inr (puzzle, validation))))"

record GenerationResult =
  puzzle :: PuzzleData
  isFallback :: bool

text \<open>
  \<open>generatePuzzle\<close> returns its result together with the number of proposal calls it
  made, the one effect of the function. A puzzle that holds \<^verbatim>\<open>NaN\<close> (the failure
  \<open>NotANumber\<close> of the builder) fails the structural check, so its attempt is retried
  like one that threw.
\<close>

function generatePuzzle ::
  "(nat \<Rightarrow> failure + PuzzleGenerationResponse) \<Rightarrow> string \<Rightarrow> nat \<Rightarrow> GenerationResult \<times> nat" where
  "generatePuzzle ai dateKey attempt =
     (if attempt \<ge> MAX_GENERATION_ATTEMPTS then
        let fallbackIndex = hashDateToIndex dateKey (length FALLBACK_PUZZLES)
        in (\<lparr>puzzle = FALLBACK_PUZZLES ! fallbackIndex, isFallback = True\<rparr>, 0)
      else
        (case tryAttempt (ai attempt) of
           Inl e \<Rightarrow>
             (let (r, calls) = generatePuzzle ai dateKey (attempt + 1) in (r, calls + 1))
         | Inr (built, validation) \<Rightarrow>
             if \<not> valid validation then
               (let (r, calls) = generatePuzzle ai dateKey (attempt + 1) in (r, calls + 1))
             else (\<lparr>puzzle = built, isFallback = False\<rparr>, 1)))"
  by pat_completeness auto
termination
  by (relation "measure (\<lambda>(ai, dateKey, attempt). MAX_GENERATION_ATTEMPTS - attempt)") auto

declare generatePuzzle.simps [simp del]

section \<open>The specification's wording, and inputs used below\<close>

definition examplePuzzle :: "real list list \<Rightarrow> real list \<Rightarrow> PuzzleData" where
  \<comment> \<open>the puzzle of the unit test "flags truly ambiguous puzzles", with the sequences
      and the stated answers left open\<close>
  "examplePuzzle seqs stated =
     \<lparr>ruleProgramType = ARITHMETIC_SEQUENCE,
      ruleProgramParams = emptyParams\<lparr>RuleProgramParams.difference := Some 3\<rparr>,
      tags = [''ARITHMETIC''], sequences = seqs, answers = stated, primarySequenceIndex = 0,
      hints = [''Hint 1'', ''Hint 2''], explanation = ''Wrong explanation''\<rparr>"

fun rollingHash :: "string \<Rightarrow> int \<Rightarrow> int" where
  \<comment> \<open>the specification's hash: \<open>hash = hash * 31 + charCode\<close>, wrapped to signed 32 bits\<close>
  "rollingHash [] h = h"
| "rollingHash (ch # rest) h = rollingHash rest (toInt32 (h * 31 + int (of_char ch)))"

definition outOfRange :: "real \<Rightarrow> bool" where
  "outOfRange v \<longleftrightarrow> \<not> isInteger v \<or> v < - 999 \<or> v > 999"

definition structuralViolation :: "PuzzleData \<Rightarrow> bool" where
  \<comment> \<open>the conditions the specification enumerates for the structural check\<close>
  "structuralViolation p \<longleftrightarrow>
     sequences p = []
     \<or> list_ex (\<lambda>s. length s < 4) (sequences p)
     \<or> list_ex (\<lambda>s. list_ex outOfRange s) (sequences p)
     \<or> list_ex outOfRange (answers p)
     \<or> length (answers p) \<noteq> length (sequences p)
     \<or> length (hints p) \<noteq> 2
     \<or> length (explanation p) < 10"

definition bogusResponse :: PuzzleGenerationResponse where
  \<comment> \<open>a reply of the service whose rule kind token is outside the enumeration\<close>
  "bogusResponse =
     \<lparr>PuzzleGenerationResponse.ruleProgramType = UNRECOGNIZED ''BOGUS'',
      PuzzleGenerationResponse.ruleProgramParams = emptyParams,
      PuzzleGenerationResponse.tags = [],
      PuzzleGenerationResponse.hints = [''Hint 1'', ''Hint 2''],
      PuzzleGenerationResponse.explanation = ''Some explanation'',
      suggestedStartingValues = None\<rparr>"


definition attemptFails :: "failure + PuzzleGenerationResponse \<Rightarrow> bool" where
  \<comment> \<open>the attempt is retried: the \<^verbatim>\<open>try\<close> block throws, or the puzzle built is not valid\<close>
  "attemptFails proposal =
     (case tryAttempt proposal of Inl e \<Rightarrow> True | Inr (built, validation) \<Rightarrow> \<not> valid validation)"

definition fallbackFor :: "string \<Rightarrow> GenerationResult" where
  \<comment> \<open>what the fallback branch of \<open>generatePuzzle\<close> returns\<close>
  "fallbackFor dateKey =
     \<lparr>puzzle = FALLBACK_PUZZLES ! hashDateToIndex dateKey (length FALLBACK_PUZZLES),
      isFallback = True\<rparr>"

definition invalidResponse :: PuzzleGenerationResponse where
  \<comment> \<open>a proposal the schema accepts, with an explanation of five characters\<close>
  "invalidResponse =
     \<lparr>PuzzleGenerationResponse.ruleProgramType = ARITHMETIC_SEQUENCE,
      PuzzleGenerationResponse.ruleProgramParams =
        emptyParams\<lparr>RuleProgramParams.difference := Some 3, startingValues := Some [1]\<rparr>,
      PuzzleGenerationResponse.tags = [''ARITHMETIC''],
      PuzzleGenerationResponse.hints = [''Hint 1'', ''Hint 2''],
      PuzzleGenerationResponse.explanation = ''Short'',
      suggestedStartingValues = Some [[1], [2], [3], [4], [5]]\<rparr>"

section \<open>Facts about the helpers\<close>

lemma isInteger_of_int: "isInteger (of_int k)"
  by (simp add: isInteger_def)

lemma isInteger_Math_round: "isInteger (Math_round x)"
  by (simp add: Math_round_def isInteger_def)

lemma length_consecutive: "length (consecutive f xs) = length xs - 1"
  by (induction f xs rule: consecutive.induct) auto

lemma nth_consecutive:
  "i + 1 < length xs \<Longrightarrow> consecutive f xs ! i = f (xs ! (i + 1)) (xs ! i)"
proof (induction f xs arbitrary: i rule: consecutive.induct)
  case (1 f x y rest)
  then show ?case by (cases i) auto
qed auto

lemma hd_consecutive:
  "2 \<le> length xs \<Longrightarrow> hd (consecutive f xs) = f (xs ! 1) (xs ! 0)"
  by (induction f xs rule: consecutive.induct) auto

lemma fitQuadratic_linear_example:
  "fitQuadratic [1, 4, 7, 10, 13] =
     \<lparr>coefficients = (Some 0, Some 3, Some (- 2)), nextValue = Some 16, error = Some 0\<rparr>"
  by (simp add: fitQuadratic_def noSums_def Math_round_def Let_def)

lemma checkConstantDifference_example:
  "checkConstantDifference [1, 4, 7, 10, 13] =
     \<lparr>ConstantDifference.isConstant = True, difference = Some 3, nextValue = Some 16\<rparr>"
  by (simp add: checkConstantDifference_def Let_def)

lemma checkConstantRatio_example:
  "checkConstantRatio [1, 4, 7, 10, 13] =
     \<lparr>ConstantRatio.isConstant = False, ratio = None, nextValue = None\<rparr>"
  by (simp add: checkConstantRatio_def Let_def)

lemma checkAlternatingPattern_example:
  "checkAlternatingPattern [1, 4, 7, 10, 13] =
     \<lparr>isAlternating = False, pattern = None, nextValue = None\<rparr>"
  by (simp add: checkAlternatingPattern_def Let_def)

lemmas example_detectors =
  fitQuadratic_linear_example checkConstantDifference_example checkConstantRatio_example
  checkAlternatingPattern_example

lemma toInt32_cong: "x mod 2 ^ 32 = y mod 2 ^ 32 \<Longrightarrow> toInt32 x = toInt32 y"
proof -
  assume "x mod 2 ^ 32 = y mod 2 ^ 32"
  then have "(x + 2 ^ 31) mod 2 ^ 32 = (y + 2 ^ 31) mod 2 ^ 32"
    by (metis mod_add_left_eq)
  then show ?thesis by (simp add: toInt32_def)
qed

lemma toInt32_shift: "\<exists>q. toInt32 x = x + 2 ^ 32 * q"
proof
  show "toInt32 x = x + 2 ^ 32 * (- ((x + 2 ^ 31) div 2 ^ 32))"
    unfolding toInt32_def by (simp add: minus_mult_div_eq_mod [symmetric])
qed

lemma hash_step: "toInt32 (toInt32 (toInt32 h * 32) - h + k) = toInt32 (h * 31 + k)"
proof -
  obtain q1 where q1: "toInt32 h = h + 2 ^ 32 * q1"
    using toInt32_shift by blast
  obtain q2 where q2: "toInt32 (toInt32 h * 32) = toInt32 h * 32 + 2 ^ 32 * q2"
    using toInt32_shift by blast
  have "toInt32 (toInt32 h * 32) - h + k = toInt32 h * 32 + 2 ^ 32 * q2 - h + k"
    by (simp only: q2)
  also have "\<dots> = (h + 2 ^ 32 * q1) * 32 + 2 ^ 32 * q2 - h + k"
    by (simp only: q1)
  also have "\<dots> = (h * 31 + k) + 2 ^ 32 * (q1 * 32 + q2)"
    by (simp add: algebra_simps)
  finally have "toInt32 (toInt32 h * 32) - h + k = (h * 31 + k) + 2 ^ 32 * (q1 * 32 + q2)" .
  then have "(toInt32 (toInt32 h * 32) - h + k) mod 2 ^ 32 = (h * 31 + k) mod 2 ^ 32"
    by (simp only: mod_mult_self2)
  then show ?thesis by (rule toInt32_cong)
qed

lemma hashLoop_rollingHash: "hashLoop dateKey h = rollingHash dateKey h"
  by (induction dateKey arbitrary: h) (simp_all add: Let_def hash_step)

lemma length_FALLBACK_PUZZLES: "length FALLBACK_PUZZLES = 5"
  by (simp add: FALLBACK_PUZZLES_def)

lemma validateDifficulty_example:
  "validateDifficulty (examplePuzzle [[1, 4, 7, 10, 13]] [20]) =
     Inr \<lparr>valid = True, errors = [], warnings = []\<rparr>"
  by (simp add: validateDifficulty_def examplePuzzle_def element_def example_detectors)

lemma structureErrors_example:
  "structureErrors (examplePuzzle [[1, 4, 7, 10, 13]] [20]) = []"
  by (simp add: structureErrors_def examplePuzzle_def termErrors_def answerErrors_def
      isInteger_def MIN_VALUE_def MAX_VALUE_def MIN_SEQUENCE_LENGTH_def)

lemma validateStructure_short_example:
  "validateStructure (examplePuzzle [[1, 2, 3]] [4, 5]) =
     \<lparr>valid = False,
      errors = [SequenceTooShort 1, AnswersCountMismatch], warnings = []\<rparr>"
  by (simp add: validateStructure_def structureErrors_def examplePuzzle_def termErrors_def
      isInteger_def MIN_VALUE_def MAX_VALUE_def MIN_SEQUENCE_LENGTH_def)

lemma validateAmbiguity_example_value:
  "validateAmbiguity (examplePuzzle [[1, 4, 7, 10, 13]] [20]) =
     Inr \<lparr>valid = True, errors = [],
          warnings = [AlternativeDisambiguated quadratic 16,
                      AlternativeDisambiguated constant_diff 16]\<rparr>"
  by (simp add: validateAmbiguity_def examplePuzzle_def element_def alternatives_def
      example_detectors)

lemma validatePuzzle_example:
  "validatePuzzle (examplePuzzle [[1, 4, 7, 10, 13]] [20]) =
     Inr \<lparr>valid = True, errors = [],
          warnings = [AlternativeDisambiguated quadratic 16,
                      AlternativeDisambiguated constant_diff 16]\<rparr>"
  by (simp add: validatePuzzle_def validateStructure_def structureErrors_example
      validateDifficulty_example validateAmbiguity_example_value)

lemma generatePuzzle_fallback:
  "MAX_GENERATION_ATTEMPTS \<le> attempt \<Longrightarrow>
   generatePuzzle ai dateKey attempt = (fallbackFor dateKey, 0)"
  by (subst generatePuzzle.simps) (simp add: fallbackFor_def)

lemma generatePuzzle_retry:
  assumes "attempt < MAX_GENERATION_ATTEMPTS" and "attemptFails (ai attempt)"
  shows "generatePuzzle ai dateKey attempt =
           (fst (generatePuzzle ai dateKey (attempt + 1)),
            snd (generatePuzzle ai dateKey (attempt + 1)) + 1)"
  using assms
  by (subst generatePuzzle.simps)
     (auto simp: attemptFails_def split: sum.splits prod.splits)

lemma generatePuzzle_accept:
  assumes "attempt < MAX_GENERATION_ATTEMPTS"
    and "tryAttempt (ai attempt) = Inr (built, validation)" and "valid validation"
  shows "generatePuzzle ai dateKey attempt = (\<lparr>puzzle = built, isFallback = False\<rparr>, 1)"
  using assms by (subst generatePuzzle.simps) simp

lemma generatePuzzle_all_fail:
  "\<forall>n. attempt \<le> n \<and> n < MAX_GENERATION_ATTEMPTS \<longrightarrow> attemptFails (ai n) \<Longrightarrow>
   attempt \<le> MAX_GENERATION_ATTEMPTS \<Longrightarrow>
   generatePuzzle ai dateKey attempt = (fallbackFor dateKey, MAX_GENERATION_ATTEMPTS - attempt)"
proof (induction "MAX_GENERATION_ATTEMPTS - attempt" arbitrary: attempt)
  case 0
  then show ?case by (simp add: generatePuzzle_fallback)
next
  case (Suc k)
  then have lt: "attempt < MAX_GENERATION_ATTEMPTS" by simp
  have fails: "attemptFails (ai attempt)" using Suc.prems(1) lt by simp
  have "generatePuzzle ai dateKey (attempt + 1) =
          (fallbackFor dateKey, MAX_GENERATION_ATTEMPTS - (attempt + 1))"
    using Suc.hyps(2) Suc.prems(1) lt by (intro Suc.hyps(1)) auto
  then show ?case
    using lt by (simp add: generatePuzzle_retry [where ai = ai, OF lt fails])
qed

lemma generatePuzzle_calls_bound:
  "snd (generatePuzzle ai dateKey attempt) \<le> MAX_GENERATION_ATTEMPTS - attempt"
proof (induction "MAX_GENERATION_ATTEMPTS - attempt" arbitrary: attempt)
  case 0
  then show ?case by (simp add: generatePuzzle_fallback)
next
  case (Suc k)
  then have lt: "attempt < MAX_GENERATION_ATTEMPTS" by simp
  have ih: "snd (generatePuzzle ai dateKey (attempt + 1)) \<le> MAX_GENERATION_ATTEMPTS - (attempt + 1)"
    using Suc.hyps(2) by (intro Suc.hyps(1)) auto
  show ?case
  proof (cases "attemptFails (ai attempt)")
    case True
    then show ?thesis using ih lt by (simp add: generatePuzzle_retry [where ai = ai, OF lt True])
  next
    case False
    then obtain built validation where
      "tryAttempt (ai attempt) = Inr (built, validation)" "valid validation"
      by (auto simp: attemptFails_def split: sum.splits prod.splits)
    then show ?thesis using lt by (simp add: generatePuzzle_accept [where ai = ai, OF lt])
  qed
qed


















lemma hashDateToIndex_example: "hashDateToIndex ''2024-01-15'' 5 = 2"
  by code_simp

lemma rollingHash_example: "rollingHash ''2024-01-15'' 0 = - 613341597"
  by code_simp

lemma attemptFails_invalidResponse: "attemptFails (Inr invalidResponse)"
  by code_simp

lemma attemptFails_ProposalFailure: "attemptFails (Inl ProposalFailure)"
  by (simp add: attemptFails_def tryAttempt_def generatePuzzleWithAI_def)

lemma toInt32_range: "- 2147483648 \<le> toInt32 x \<and> toInt32 x < 2147483648"
proof -
  have "0 \<le> (x + 2147483648) mod 4294967296" and "(x + 2147483648) mod 4294967296 < 4294967296"
    by simp_all
  then show ?thesis by (simp add: toInt32_def)
qed

lemma rollingHash_range:
  "- 2147483648 \<le> h \<and> h < 2147483648 \<Longrightarrow>
   - 2147483648 \<le> rollingHash dateKey h \<and> rollingHash dateKey h < 2147483648"
proof (induction dateKey arbitrary: h)
  case Nil
  then show ?case by simp
next
  case (Cons ch rest)
  show ?case
    using Cons.IH [OF toInt32_range] by simp
qed

lemma hashDateToIndex_less: "0 < bound \<Longrightarrow> hashDateToIndex dateKey bound < bound"
  by (simp add: hashDateToIndex_def nat_less_iff)



lemma termErrors_empty_iff: "termErrors i j v = [] \<longleftrightarrow> \<not> outOfRange v"
  by (auto simp: termErrors_def outOfRange_def MIN_VALUE_def MAX_VALUE_def)

lemma answerErrors_empty_iff: "answerErrors i v = [] \<longleftrightarrow> \<not> outOfRange v"
  by (auto simp: answerErrors_def outOfRange_def MIN_VALUE_def MAX_VALUE_def)

lemma termLoop_empty_iff: "termLoop i j s = [] \<longleftrightarrow> \<not> list_ex outOfRange s"
  by (induction s arbitrary: j) (auto simp: termErrors_empty_iff)

lemma answerLoop_empty_iff: "answerLoop i s = [] \<longleftrightarrow> \<not> list_ex outOfRange s"
  by (induction s arbitrary: i) (auto simp: answerErrors_empty_iff)

lemma sequenceLoop_empty_iff:
  "sequenceLoop i seqs = [] \<longleftrightarrow>
     \<not> list_ex (\<lambda>s. length s < 4) seqs \<and> \<not> list_ex (\<lambda>s. list_ex outOfRange s) seqs"
  by (induction seqs arbitrary: i) (auto simp: termLoop_empty_iff MIN_SEQUENCE_LENGTH_def)

lemma structureErrors_empty_iff: "structureErrors p = [] \<longleftrightarrow> \<not> structuralViolation p"
  by (auto simp: structureErrors_def structuralViolation_def sequenceLoop_empty_iff
      answerLoop_empty_iff)

lemma termLoop_collects:
  assumes "j < length s"
  shows "(\<not> isInteger (s ! j) \<longrightarrow> TermNotInteger (i + 1) (k + j + 1) (s ! j) \<in> set (termLoop i k s))
       \<and> (s ! j < - 999 \<or> s ! j > 999 \<longrightarrow>
            TermOutOfBounds (i + 1) (k + j + 1) (s ! j) \<in> set (termLoop i k s))"
  using assms
proof (induction s arbitrary: j k)
  case Nil
  then show ?case by simp
next
  case (Cons v rest)
  show ?case
  proof (cases j)
    case 0
    then show ?thesis by (simp add: termErrors_def MIN_VALUE_def MAX_VALUE_def)
  next
    case (Suc j')
    then have "j' < length rest" using Cons.prems by simp
    from Cons.IH [OF this, of "k + 1"] show ?thesis using Suc by simp
  qed
qed

lemma answerLoop_collects:
  assumes "i < length s"
  shows "(\<not> isInteger (s ! i) \<longrightarrow> AnswerNotInteger (k + i + 1) (s ! i) \<in> set (answerLoop k s))
       \<and> (s ! i < - 999 \<or> s ! i > 999 \<longrightarrow>
            AnswerOutOfBounds (k + i + 1) (s ! i) \<in> set (answerLoop k s))"
  using assms
proof (induction s arbitrary: i k)
  case Nil
  then show ?case by simp
next
  case (Cons v rest)
  show ?case
  proof (cases i)
    case 0
    then show ?thesis by (simp add: answerErrors_def MIN_VALUE_def MAX_VALUE_def)
  next
    case (Suc i')
    then have "i' < length rest" using Cons.prems by simp
    from Cons.IH [OF this, of "k + 1"] show ?thesis using Suc by simp
  qed
qed

lemma sequenceLoop_collects:
  assumes "i < length seqs"
  shows "(length (seqs ! i) < 4 \<longrightarrow> SequenceTooShort (k + i + 1) \<in> set (sequenceLoop k seqs))
       \<and> set (termLoop (k + i) 0 (seqs ! i)) \<subseteq> set (sequenceLoop k seqs)"
  using assms
proof (induction seqs arbitrary: i k)
  case Nil
  then show ?case by simp
next
  case (Cons s rest)
  show ?case
  proof (cases i)
    case 0
    then show ?thesis by (auto simp: MIN_SEQUENCE_LENGTH_def)
  next
    case (Suc i')
    then have "i' < length rest" using Cons.prems by simp
    from Cons.IH [OF this, of "k + 1"] show ?thesis using Suc by auto
  qed
qed

lemma structureErrors_gated_example:
  "structureErrors (examplePuzzle [[1, 2, 3, 4]] [5, 1000]) = [AnswersCountMismatch]"
  by (simp add: structureErrors_def examplePuzzle_def termErrors_def
      isInteger_def MIN_VALUE_def MAX_VALUE_def MIN_SEQUENCE_LENGTH_def)

lemma validateStructure_mixed_example:
  "validateStructure (examplePuzzle [[1, 2, 3], [1, 5 / 2, 3, 1000]] [4, 2000]) =
     \<lparr>valid = False,
      errors = [SequenceTooShort 1, TermNotInteger 2 2 (5 / 2), TermOutOfBounds 2 4 1000,
                AnswerOutOfBounds 2 2000],
      warnings = []\<rparr>"
  by (simp add: validateStructure_def structureErrors_def examplePuzzle_def termErrors_def
      answerErrors_def isInteger_def MIN_VALUE_def MAX_VALUE_def MIN_SEQUENCE_LENGTH_def)

lemma fitQuadratic_nextValue_integer:
  "QuadraticFit.nextValue (fitQuadratic sq) = Some v \<Longrightarrow> isInteger v"
  by (auto simp: fitQuadratic_def Let_def isInteger_Math_round split: if_splits)

lemma integers_apart:
  assumes "isInteger x" and "isInteger y" and "x \<noteq> y"
  shows "\<bar>x - y\<bar> > 1 / 2"
proof -
  obtain m n :: int where x: "x = of_int m" and y: "y = of_int n"
    using assms(1,2) unfolding isInteger_def by metis
  then have "m \<noteq> n" using assms(3) by auto
  then have "1 \<le> \<bar>m - n\<bar>" by linarith
  then have "1 \<le> \<bar>real_of_int (m - n)\<bar>" by linarith
  then show ?thesis unfolding x y by simp
qed

lemma mismatch_on_primary:
  assumes "(m, v) \<in> set (alternatives sq (Some ans))" and "isInteger ans"
  shows "mismatch m sq (Some ans)"
proof (cases m)
  case quadratic
  then have nv: "QuadraticFit.nextValue (fitQuadratic sq) = Some v" and ne: "v \<noteq> ans"
    using assms(1)
    by (auto simp: alternatives_def Let_def split: option.splits if_splits)
  have "isInteger v" using nv by (rule fitQuadratic_nextValue_integer)
  then have "\<bar>v - ans\<bar> > 1 / 2" using assms(2) ne by (rule integers_apart)
  then show ?thesis using quadratic nv by simp
next
  case constant_diff
  then have "ConstantDifference.nextValue (checkConstantDifference sq) = Some v" and "v \<noteq> ans"
    using assms(1)
    by (auto simp: alternatives_def Let_def split: option.splits if_splits)
  then show ?thesis using constant_diff by simp
next
  case constant_ratio
  then have "ConstantRatio.nextValue (checkConstantRatio sq) = Some v" and "v \<noteq> ans"
    using assms(1)
    by (auto simp: alternatives_def Let_def split: option.splits if_splits)
  then show ?thesis using constant_ratio by simp
next
  case alternating
  then have "AlternatingPattern.nextValue (checkAlternatingPattern sq) = Some v" and "v \<noteq> ans"
    using assms(1)
    by (auto simp: alternatives_def Let_def split: option.splits if_splits)
  then show ?thesis using alternating by simp
qed

lemma fitsAllSequences_each:
  "fitsAllSequences m i seqs stated \<Longrightarrow> k < length seqs \<Longrightarrow>
   \<not> mismatch m (seqs ! k) (element stated (i + k))"
proof (induction seqs arbitrary: i k)
  case Nil
  then show ?case by simp
next
  case (Cons s rest)
  show ?case
  proof (cases k)
    case 0
    then show ?thesis using Cons.prems(1) by (auto split: if_splits)
  next
    case (Suc k')
    then have "k' < length rest" using Cons.prems(2) by simp
    moreover have "fitsAllSequences m (i + 1) rest stated"
      using Cons.prems(1) by (auto split: if_splits)
    ultimately have "\<not> mismatch m (rest ! k') (element stated (i + 1 + k'))"
      by (rule Cons.IH [rotated])
    then show ?thesis using Suc by simp
  qed
qed

lemma alternativeLoop_all_warn:
  "\<forall>(m, v) \<in> set alts. \<not> fitsAllSequences m 0 (sequences p) (answers p) \<Longrightarrow>
   alternativeLoop p intended alts (errs, warns)
     = (errs, warns @ map (\<lambda>(m, v). AlternativeDisambiguated m v) alts)"
  by (induction alts arbitrary: warns) auto

lemma whileLoop_result:
  "whileLoop ruleType params len sq = Inr r \<Longrightarrow>
   take (length sq) r = sq \<and> length r = max len (length sq)"
proof (induction ruleType params len sq rule: whileLoop.induct)
  case (1 ruleType params len sq)
  show ?case
  proof (cases "length sq < len")
    case False
    then show ?thesis using "1.prems" by (subst (asm) whileLoop.simps) auto
  next
    case True
    then obtain nextVal where ev: "evaluateNextValue sq ruleType params (length sq + 1) = Inr nextVal"
      and rec: "whileLoop ruleType params len (sq @ [nextVal]) = Inr r"
      using "1.prems" by (subst (asm) whileLoop.simps) (auto split: sum.splits)
    have "take (length (sq @ [nextVal])) r = sq @ [nextVal]
          \<and> length r = max len (length (sq @ [nextVal]))"
      using True ev rec by (rule "1.IH")
    then have "take (Suc (length sq)) r = sq @ [nextVal]" and len: "length r = max len (Suc (length sq))"
      by simp_all
    then have "take (length sq) (take (Suc (length sq)) r) = take (length sq) (sq @ [nextVal])"
      by simp
    then have "take (length sq) r = sq" by (simp add: min_def)
    then show ?thesis using len True by simp
  qed
qed

lemma length_mapIndexed: "length (mapIndexed f k xs) = length xs"
  by (induction xs arbitrary: k) auto

lemma nth_mapIndexed: "j < length xs \<Longrightarrow> mapIndexed f k xs ! j = f (xs ! j) (k + j)"
proof (induction xs arbitrary: k j)
  case Nil
  then show ?case by simp
next
  case (Cons x xs)
  then show ?case by (cases j) auto
qed

lemma length_variedStart: "length (variedStart bs i) = length bs"
  by (simp add: variedStart_def length_mapIndexed)

lemma nth_variedStart:
  "idx < length bs \<Longrightarrow> variedStart bs i ! idx = fl (bs ! idx + real (i * (idx + 1) * 2))"
  by (simp add: variedStart_def nth_mapIndexed)

lemma forEach_result:
  "forEach i k body = Inr xs \<Longrightarrow> length xs = k \<and> (\<forall>j < k. body (i + j) = Inr (xs ! j))"
proof (induction k arbitrary: i xs)
  case 0
  then show ?case by simp
next
  case (Suc k)
  then obtain x rest where x: "body i = Inr x" and rest: "forEach (i + 1) k body = Inr rest"
    and xs: "xs = x # rest"
    by (auto split: sum.splits)
  have ih: "length rest = k \<and> (\<forall>j < k. body (i + 1 + j) = Inr (rest ! j))"
    using rest by (rule Suc.IH)
  show ?case
  proof (intro conjI allI impI)
    show "length xs = Suc k" using ih xs by simp
  next
    fix j assume "j < Suc k"
    then show "body (i + j) = Inr (xs ! j)"
      using ih x xs by (cases j) auto
  qed
qed

lemma forEach_total:
  "\<forall>j < k. \<exists>x. body (i + j) = Inr x \<Longrightarrow> \<exists>xs. forEach i k body = Inr xs"
proof (induction k arbitrary: i)
  case 0
  then show ?case by simp
next
  case (Suc k)
  obtain x where x: "body i = Inr x" using Suc.prems [rule_format, of 0] by auto
  have "\<forall>j < k. \<exists>x. body (i + 1 + j) = Inr x"
  proof (intro allI impI)
    fix j assume "j < k"
    then have "Suc j < Suc k" by simp
    then have "\<exists>x. body (i + Suc j) = Inr x"
      using Suc.prems by blast
    then show "\<exists>x. body (i + 1 + j) = Inr x" by simp
  qed
  then obtain rest where "forEach (i + 1) k body = Inr rest"
    using Suc.IH by blast
  then show ?case using x by simp
qed

lemma generateSequence_seeded:
  assumes "\<not> isPositional ruleType" and "generateSequence ruleType params len (Some vs) = Inr g"
  shows "take (length vs) (sequence g) = take len (map Num vs) \<and> length (sequence g) = len"
proof -
  let ?seed = "map Num (take (min (length vs) len) vs)"
  obtain r where r: "whileLoop ruleType params len ?seed = Inr r"
    and g: "sequence g = r"
    using assms by (auto simp: generateSequence_def Let_def split: sum.splits)
  have "take (length ?seed) r = ?seed \<and> length r = max len (length ?seed)"
    using r by (rule whileLoop_result)
  then have pre: "take (min (length vs) len) r = ?seed"
    and len: "length r = len"
    by (simp_all add: min_def max_def split: if_splits)
  have "take (length vs) r = take (min (length vs) len) r"
    using len by (simp add: min_def)
  moreover have "?seed = take len (map Num vs)"
    by (simp add: min_def take_map)
  ultimately show ?thesis using pre len g by simp
qed

lemma evaluateNextValue_total:
  assumes "sq \<noteq> []" and "recognized ruleType"
    and "ruleType = ALTERNATING_OPS \<longrightarrow> nullish (operations params) defaultOperations \<noteq> []"
  shows "\<exists>v. evaluateNextValue sq ruleType params position = Inr v"
  using assms
  by (cases ruleType) (auto simp: recognized_def Let_def split: power_type.splits)

lemma whileLoop_total:
  assumes "sq \<noteq> []" and "recognized ruleType"
    and "ruleType = ALTERNATING_OPS \<longrightarrow> nullish (operations params) defaultOperations \<noteq> []"
  shows "\<exists>r. whileLoop ruleType params len sq = Inr r"
  using assms
proof (induction ruleType params len sq rule: whileLoop.induct)
  case (1 ruleType params len sq)
  show ?case
  proof (cases "length sq < len")
    case False
    then show ?thesis by (subst whileLoop.simps) simp
  next
    case True
    obtain v where v: "evaluateNextValue sq ruleType params (length sq + 1) = Inr v"
      using evaluateNextValue_total [OF "1.prems"] by blast
    have "\<exists>r. whileLoop ruleType params len (sq @ [v]) = Inr r"
      using True v "1.prems"(2,3) by (intro "1.IH") simp_all
    then show ?thesis using True v by (subst whileLoop.simps) simp
  qed
qed

lemma generateSequence_total:
  assumes "\<not> isPositional ruleType" and "vs \<noteq> []" and "1 \<le> len"
    and "recognized ruleType"
    and "ruleType = ALTERNATING_OPS \<longrightarrow> nullish (operations params) defaultOperations \<noteq> []"
  shows "\<exists>g. generateSequence ruleType params len (Some vs) = Inr g"
proof -
  let ?seed = "map Num (take (min (length vs) len) vs)"
  have seeds: "?seed \<noteq> []"
    using assms(2,3) by (cases vs) (auto simp: min_def)
  then obtain r where r: "whileLoop ruleType params len ?seed = Inr r"
    using whileLoop_total [OF _ assms(4,5)] by blast
  then have "length r = max len (length ?seed)"
    using whileLoop_result by blast
  then have "r \<noteq> []" using assms(3) by auto
  then obtain v where "evaluateNextValue r ruleType params (len + 1) = Inr v"
    using evaluateNextValue_total [OF _ assms(4,5)] by blast
  then show ?thesis using r assms(1) by (simp add: generateSequence_def)
qed

lemma bitLength_le: "n < 2 ^ k \<Longrightarrow> bitLength n \<le> k"
proof (induction k arbitrary: n)
  case 0
  then show ?case by (subst bitLength.simps) simp
next
  case (Suc k)
  show ?case
  proof (cases "n \<le> 0")
    case True
    then show ?thesis by (subst bitLength.simps) simp
  next
    case False
    have "n div 2 < 2 ^ k" using Suc.prems by simp
    then have "bitLength (n div 2) \<le> k" by (rule Suc.IH)
    then show ?thesis using False by (subst bitLength.simps) simp
  qed
qed

lemma roundEven_of_int: "roundEven (of_int m) = m"
  by (simp add: roundEven_def)

lemma fl_integer:
  assumes "isInteger x" and "\<bar>x\<bar> < 2 ^ 53"
  shows "fl x = x"
proof (cases "x = 0")
  case True
  then show ?thesis by (simp add: fl_def)
next
  case False
  obtain m :: int where m: "x = of_int m"
    using assms(1) by (auto simp: isInteger_def intro: that [of "\<lfloor>x\<rfloor>"])
  then have m0: "m \<noteq> 0" using False by simp
  then have one: "1 \<le> \<bar>x\<bar>" using m by (simp add: of_int_abs [symmetric] del: of_int_abs)
  have "\<bar>m\<bar> < 2 ^ 53"
  proof -
    have "(of_int \<bar>m\<bar> :: real) < of_int (2 ^ 53)" using assms(2) m by simp
    then show ?thesis by (simp only: of_int_less_iff)
  qed
  then have "bitLength \<bar>m\<bar> \<le> 53" by (rule bitLength_le)
  moreover have "\<lfloor>\<bar>x\<bar>\<rfloor> = \<bar>m\<bar>" using m by (simp add: of_int_abs [symmetric] del: of_int_abs)
  ultimately have e: "binade x - 52 \<le> 0" using one by (simp add: binade_def)
  define d where "d = nat (52 - binade x)"
  have ulp: "pow2 (binade x - 52) = 1 / 2 ^ d"
  proof (cases "binade x - 52 = 0")
    case True
    then show ?thesis by (simp add: pow2_def d_def)
  next
    case False
    then have "binade x - 52 < 0" using e by simp
    then show ?thesis by (simp add: pow2_def d_def)
  qed
  have "x / (1 / 2 ^ d) = of_int (m * 2 ^ d)" using m by simp
  then have "roundEven (x / (1 / 2 ^ d)) = m * 2 ^ d"
    by (simp only: roundEven_of_int)
  then have "fl x = 1 / 2 ^ d * of_int (m * 2 ^ d)"
    using False ulp by (simp add: fl_def Let_def)
  then show ?thesis using m by simp
qed

lemma generateMultipleSequences_example:
  "generateMultipleSequences ARITHMETIC_SEQUENCE
     (emptyParams\<lparr>RuleProgramParams.difference := Some 3, startingValues := Some [1]\<rparr>) 3 4
   = Inr [\<lparr>sequence = [Num 1, Num 4, Num 7, Num 10], nextValue = Num 13\<rparr>,
          \<lparr>sequence = [Num 3, Num 6, Num 9, Num 12], nextValue = Num 15\<rparr>,
          \<lparr>sequence = [Num 5, Num 8, Num 11, Num 14], nextValue = Num 17\<rparr>]"
  by code_simp

lemma generateMultipleSequences_fraction_example:
  "generateMultipleSequences DIGIT_SUM_BASED (emptyParams\<lparr>startingValues := Some [3 / 2]\<rparr>) 2 2
   = Inr [\<lparr>sequence = [Num (3 / 2), NaN], nextValue = NaN\<rparr>,
          \<lparr>sequence = [Num (7 / 2), NaN], nextValue = NaN\<rparr>]"
  by code_simp

lemma fl_fraction_example: "fl (3 / 2) = 3 / 2 \<and> fl (7 / 2) = 7 / 2"
  by code_simp

section \<open>The ambiguity check on a sole sequence\<close>

text \<open>
  Claim C1. For the puzzle whose only sequence is \<open>[1,4,7,10,13]\<close> with stated answer 20
  the ambiguity check is to report the constant-difference rival (predicting 16) as an
  error. The code reports it, and the quadratic rival, as warnings and leaves the error
  list empty: the loop that looks for a sequence the rival does not explain also visits
  the primary sequence, which it never explains.
\<close>

theorem validateAmbiguity_sole_sequence_only_warns:
  "validateAmbiguity (examplePuzzle [[1, 4, 7, 10, 13]] [20]) =
     Inr \<lparr>valid = True, errors = [],
          warnings = [AlternativeDisambiguated quadratic 16,
                      AlternativeDisambiguated constant_diff 16]\<rparr>"
  by (simp add: validateAmbiguity_def examplePuzzle_def element_def alternatives_def
      example_detectors)

section \<open>The constant-ratio detector\<close>

text \<open>
  Claim C10. The integer guard of \<open>checkConstantRatio\<close> never rejects: for a sequence of
  at least two non-zero terms whose consecutive ratios all lie within \<open>1e-4\<close> of the
  first one, the detector answers \<open>isConstant = true\<close> with the rounded first ratio and
  \<open>last * round(ratio)\<close>, whether or not the ratio is an integer, because the guard tests
  the rounded ratio, which is always an integer.
\<close>

theorem checkConstantRatio_integer_guard_vacuous:
  assumes "2 \<le> length s" and "\<forall>v \<in> set s. v \<noteq> 0"
    and "\<forall>i. i + 1 < length s \<longrightarrow> \<bar>s ! (i + 1) / s ! i - s ! 1 / s ! 0\<bar> < 1 / 10000"
  shows "checkConstantRatio s =
           \<lparr>ConstantRatio.isConstant = True,
            ratio = Some (Math_round (s ! 1 / s ! 0)),
            nextValue = Some (last s * Math_round (s ! 1 / s ! 0))\<rparr>
         \<and> isInteger (Math_round (s ! 1 / s ! 0))"
proof -
  let ?rs = "consecutive (\<lambda>cur prv. cur / prv) s"
  have first: "hd ?rs = s ! 1 / s ! 0"
    using assms(1) by (rule hd_consecutive)
  have "list_all (\<lambda>r. \<bar>r - hd ?rs\<bar> < 1 / 10000) ?rs"
    unfolding list_all_length first
  proof (intro allI impI)
    fix i assume "i < length ?rs"
    then have "i + 1 < length s" by (simp add: length_consecutive)
    then show "\<bar>?rs ! i - s ! 1 / s ! 0\<bar> < 1 / 10000"
      using assms(3) by (simp add: nth_consecutive)
  qed
  moreover have "\<not> list_ex (\<lambda>v. v = 0) s"
    using assms(2) by (auto simp: list_ex_iff)
  ultimately show ?thesis
    using assms(1) first isInteger_Math_round
    by (simp add: checkConstantRatio_def Let_def)
qed

text \<open>The sequence \<open>[4,6,9]\<close> has the common ratio 1.5 and is reported with ratio 2.\<close>

theorem checkConstantRatio_integer_guard_vacuous_witness:
  "checkConstantRatio [4, 6, 9] =
     \<lparr>ConstantRatio.isConstant = True, ratio = Some 2, nextValue = Some 18\<rparr>
   \<and> \<not> isInteger (6 / 4)"
proof -
  have len: "2 \<le> length [4, 6, 9 :: real]" by simp
  have nz: "\<forall>v \<in> set [4, 6, 9 :: real]. v \<noteq> 0" by simp
  have tol: "\<forall>i. i + 1 < length [4, 6, 9 :: real] \<longrightarrow>
      \<bar>[4, 6, 9 :: real] ! (i + 1) / [4, 6, 9] ! i - [4, 6, 9] ! 1 / [4, 6, 9] ! 0\<bar> < 1 / 10000"
  proof (intro allI impI)
    fix i assume "i + 1 < length [4, 6, 9 :: real]"
    then have "i = 0 \<or> i = 1" by auto
    then show "\<bar>[4, 6, 9 :: real] ! (i + 1) / [4, 6, 9] ! i - [4, 6, 9] ! 1 / [4, 6, 9] ! 0\<bar>
               < 1 / 10000"
      by auto
  qed
  show ?thesis
    using checkConstantRatio_integer_guard_vacuous [OF len nz tol]
    by (simp add: Math_round_def isInteger_def)
qed

section \<open>Validity and the error list\<close>

text \<open>
  Claim C8. Every result of \<open>validateStructure\<close>, \<open>validateDifficulty\<close>,
  \<open>validateAmbiguity\<close> and \<open>validatePuzzle\<close> has \<open>valid\<close> true exactly when its error
  list is empty; the warnings play no part.
\<close>

theorem validation_valid_iff_no_errors:
  "(valid (validateStructure p) \<longleftrightarrow> errors (validateStructure p) = [])
   \<and> (\<forall>r. validateDifficulty p = Inr r \<longrightarrow> (valid r \<longleftrightarrow> errors r = []))
   \<and> (\<forall>r. validateAmbiguity p = Inr r \<longrightarrow> (valid r \<longleftrightarrow> errors r = []))
   \<and> (\<forall>r. validatePuzzle p = Inr r \<longrightarrow> (valid r \<longleftrightarrow> errors r = []))"
proof (intro conjI allI impI)
  show "valid (validateStructure p) \<longleftrightarrow> errors (validateStructure p) = []"
    by (simp add: validateStructure_def Let_def)
next
  fix r assume "validateDifficulty p = Inr r"
  then show "valid r \<longleftrightarrow> errors r = []"
    by (auto simp: validateDifficulty_def Let_def split: option.splits)
next
  fix r assume "validateAmbiguity p = Inr r"
  then show "valid r \<longleftrightarrow> errors r = []"
    by (auto simp: validateAmbiguity_def Let_def split: option.splits prod.splits)
next
  fix r assume "validatePuzzle p = Inr r"
  then show "valid r \<longleftrightarrow> errors r = []"
    by (auto simp: validatePuzzle_def Let_def split: sum.splits if_splits)
qed

text \<open>
  The test puzzle is valid with two warnings; a puzzle with a three-term sequence and
  two answers is not.
\<close>

theorem validation_valid_iff_no_errors_witness:
  "validatePuzzle (examplePuzzle [[1, 4, 7, 10, 13]] [20]) =
     Inr \<lparr>valid = True, errors = [],
          warnings = [AlternativeDisambiguated quadratic 16,
                      AlternativeDisambiguated constant_diff 16]\<rparr>
   \<and> validateDifficulty (examplePuzzle [[1, 4, 7, 10, 13]] [20]) =
     Inr \<lparr>valid = True, errors = [], warnings = []\<rparr>
   \<and> valid (validateStructure (examplePuzzle [[1, 2, 3]] [4, 5])) = False
   \<and> errors (validateStructure (examplePuzzle [[1, 2, 3]] [4, 5])) \<noteq> []"
  using validation_valid_iff_no_errors [of "examplePuzzle [[1, 4, 7, 10, 13]] [20]"]
    validation_valid_iff_no_errors [of "examplePuzzle [[1, 2, 3]] [4, 5]"]
  by (simp add: validatePuzzle_example validateDifficulty_example
      validateStructure_short_example)

section \<open>The fallback selection\<close>

text \<open>
  Claim C7. \<open>hashDateToIndex\<close> is the specification's rolling hash
  (\<open>hash * 31 + charCode\<close>, wrapped to signed 32 bits at each step), in absolute value
  modulo the catalog size 5; it is an index of the catalog, and the fallback branch of
  \<open>generatePuzzle\<close> picks the catalog entry at that index whatever the proposal source
  and the attempt number are, so a date string always gets the same entry.
\<close>

theorem hashDateToIndex_is_rolling_hash:
  "hashDateToIndex dateKey (length FALLBACK_PUZZLES) = nat (\<bar>rollingHash dateKey 0\<bar> mod 5)
   \<and> hashDateToIndex dateKey (length FALLBACK_PUZZLES) < length FALLBACK_PUZZLES
   \<and> - (2 ^ 31) \<le> rollingHash dateKey 0 \<and> rollingHash dateKey 0 < 2 ^ 31
   \<and> (\<forall>ai ai' attempt attempt'.
         MAX_GENERATION_ATTEMPTS \<le> attempt \<and> MAX_GENERATION_ATTEMPTS \<le> attempt' \<longrightarrow>
         fst (generatePuzzle ai dateKey attempt) = fst (generatePuzzle ai' dateKey attempt')
         \<and> puzzle (fst (generatePuzzle ai dateKey attempt)) =
             FALLBACK_PUZZLES ! nat (\<bar>rollingHash dateKey 0\<bar> mod 5))"
proof -
  have idx: "hashDateToIndex dateKey (length FALLBACK_PUZZLES) = nat (\<bar>rollingHash dateKey 0\<bar> mod 5)"
    by (simp add: hashDateToIndex_def hashLoop_rollingHash length_FALLBACK_PUZZLES)
  have less: "hashDateToIndex dateKey (length FALLBACK_PUZZLES) < length FALLBACK_PUZZLES"
    by (rule hashDateToIndex_less) (simp add: length_FALLBACK_PUZZLES)
  have range: "- (2 ^ 31) \<le> rollingHash dateKey 0 \<and> rollingHash dateKey 0 < 2 ^ 31"
    using rollingHash_range [of 0 dateKey] by simp
  have pick: "puzzle (fallbackFor dateKey) = FALLBACK_PUZZLES ! nat (\<bar>rollingHash dateKey 0\<bar> mod 5)"
    using idx by (simp add: fallbackFor_def)
  show ?thesis
    using idx less range pick by (simp add: generatePuzzle_fallback)
qed

text \<open>The date \<open>2024-01-15\<close> hashes to \<open>-613341597\<close> and selects the entry at index 2.\<close>

theorem hashDateToIndex_is_rolling_hash_witness:
  "hashDateToIndex ''2024-01-15'' (length FALLBACK_PUZZLES) = 2
   \<and> rollingHash ''2024-01-15'' 0 = - 613341597
   \<and> fst (generatePuzzle (\<lambda>n. Inl ProposalFailure) ''2024-01-15'' 20)
       = fst (generatePuzzle (\<lambda>n. Inr bogusResponse) ''2024-01-15'' 25)
   \<and> puzzle (fst (generatePuzzle (\<lambda>n. Inl ProposalFailure) ''2024-01-15'' 20))
       = FALLBACK_PUZZLES ! 2"
proof -
  note inst = hashDateToIndex_is_rolling_hash [of "''2024-01-15''"]
  have ge: "MAX_GENERATION_ATTEMPTS \<le> 20 \<and> MAX_GENERATION_ATTEMPTS \<le> 25"
    by (simp add: MAX_GENERATION_ATTEMPTS_def)
  have two: "nat (\<bar>rollingHash ''2024-01-15'' 0\<bar> mod 5) = 2"
    by (simp only: rollingHash_example) simp
  have idx: "hashDateToIndex ''2024-01-15'' (length FALLBACK_PUZZLES) = 2"
    using inst two by (simp only:)
  have both: "fst (generatePuzzle (\<lambda>n. Inl ProposalFailure) ''2024-01-15'' 20)
          = fst (generatePuzzle (\<lambda>n. Inr bogusResponse) ''2024-01-15'' 25)
        \<and> puzzle (fst (generatePuzzle (\<lambda>n. Inl ProposalFailure) ''2024-01-15'' 20))
            = FALLBACK_PUZZLES ! nat (\<bar>rollingHash ''2024-01-15'' 0\<bar> mod 5)"
    using inst ge by blast
  have same: "FALLBACK_PUZZLES ! nat (\<bar>rollingHash ''2024-01-15'' 0\<bar> mod 5) = FALLBACK_PUZZLES ! 2"
    by (simp only: two)
  have e1: "fst (generatePuzzle (\<lambda>n. Inl ProposalFailure) ''2024-01-15'' 20)
          = fst (generatePuzzle (\<lambda>n. Inr bogusResponse) ''2024-01-15'' 25)"
    using both by (rule conjunct1)
  have e2: "puzzle (fst (generatePuzzle (\<lambda>n. Inl ProposalFailure) ''2024-01-15'' 20))
            = FALLBACK_PUZZLES ! 2"
    using both [THEN conjunct2] same by (rule trans)
  show ?thesis
    using idx rollingHash_example e1 e2 by (intro conjI)
qed

section \<open>Termination of the orchestrator\<close>

text \<open>
  Claim C4. \<open>generatePuzzle\<close> is total. From attempt 0 it makes at most
  \<open>MAX_GENERATION_ATTEMPTS = 20\<close> proposal calls for every proposal source, and when
  each of the 20 attempts fails (the call fails, the builder throws, or the puzzle built
  is not valid) it returns the fallback puzzle of the date with \<open>isFallback = true\<close>
  after exactly 20 calls.
\<close>

theorem generatePuzzle_bounded_then_fallback:
  "MAX_GENERATION_ATTEMPTS = 20
   \<and> snd (generatePuzzle ai dateKey 0) \<le> MAX_GENERATION_ATTEMPTS
   \<and> ((\<forall>n < MAX_GENERATION_ATTEMPTS. attemptFails (ai n)) \<longrightarrow>
        generatePuzzle ai dateKey 0 = (fallbackFor dateKey, MAX_GENERATION_ATTEMPTS)
        \<and> isFallback (fst (generatePuzzle ai dateKey 0)) = True
        \<and> puzzle (fst (generatePuzzle ai dateKey 0)) \<in> set FALLBACK_PUZZLES)"
proof (intro conjI impI)
  show "MAX_GENERATION_ATTEMPTS = 20" by (simp add: MAX_GENERATION_ATTEMPTS_def)
  show "snd (generatePuzzle ai dateKey 0) \<le> MAX_GENERATION_ATTEMPTS"
    using generatePuzzle_calls_bound [of ai dateKey 0] by simp
next
  assume fails: "\<forall>n < MAX_GENERATION_ATTEMPTS. attemptFails (ai n)"
  then show all: "generatePuzzle ai dateKey 0 = (fallbackFor dateKey, MAX_GENERATION_ATTEMPTS)"
    using generatePuzzle_all_fail [of 0 ai dateKey] by simp
  then show "isFallback (fst (generatePuzzle ai dateKey 0)) = True"
    by (simp add: fallbackFor_def)
  have "hashDateToIndex dateKey (length FALLBACK_PUZZLES) < length FALLBACK_PUZZLES"
    by (rule hashDateToIndex_less) (simp add: length_FALLBACK_PUZZLES)
  then show "puzzle (fst (generatePuzzle ai dateKey 0)) \<in> set FALLBACK_PUZZLES"
    using all by (simp add: fallbackFor_def)
qed

text \<open>
  Two sources: one whose call always fails, one that always proposes a puzzle with an
  explanation of five characters.
\<close>

theorem generatePuzzle_bounded_then_fallback_witness:
  "generatePuzzle (\<lambda>n. Inl ProposalFailure) ''2024-01-15'' 0
     = (\<lparr>puzzle = FALLBACK_PUZZLES ! 2, isFallback = True\<rparr>, 20)
   \<and> generatePuzzle (\<lambda>n. Inr invalidResponse) ''2024-01-15'' 0
     = (\<lparr>puzzle = FALLBACK_PUZZLES ! 2, isFallback = True\<rparr>, 20)"
proof -
  have f1: "\<forall>n < MAX_GENERATION_ATTEMPTS. attemptFails ((\<lambda>n. Inl ProposalFailure) n)"
    by (simp add: attemptFails_ProposalFailure)
  have f2: "\<forall>n < MAX_GENERATION_ATTEMPTS. attemptFails ((\<lambda>n. Inr invalidResponse) n)"
    by (simp add: attemptFails_invalidResponse)
  have fb: "fallbackFor ''2024-01-15'' = \<lparr>puzzle = FALLBACK_PUZZLES ! 2, isFallback = True\<rparr>"
    by (simp add: fallbackFor_def length_FALLBACK_PUZZLES hashDateToIndex_example)
  show ?thesis
    using generatePuzzle_bounded_then_fallback [of "\<lambda>n. Inl ProposalFailure" "''2024-01-15''"]
      generatePuzzle_bounded_then_fallback [of "\<lambda>n. Inr invalidResponse" "''2024-01-15''"]
      f1 f2 fb
    by simp
qed

section \<open>The unknown-rule error\<close>



section \<open>What the next term depends on\<close>




section \<open>The structural check\<close>

text \<open>
  Claim C6 says that every violation present in the input is collected into the error
  list. An answer that is out of range is not collected when the number of answers
  differs from the number of sequences: the answers are examined only in the
  \<^verbatim>\<open>else\<close> branch of the count test. With one sequence and the answers \<open>[5, 1000]\<close>
  the only error is the count mismatch.
\<close>

theorem out_of_range_answer_not_collected:
  "answers (examplePuzzle [[1, 2, 3, 4]] [5, 1000]) ! 1 > 999
   \<and> errors (validateStructure (examplePuzzle [[1, 2, 3, 4]] [5, 1000])) = [AnswersCountMismatch]
   \<and> AnswerOutOfBounds 2 1000
        \<notin> set (errors (validateStructure (examplePuzzle [[1, 2, 3, 4]] [5, 1000])))"
  by (simp add: validateStructure_def structureErrors_gated_example)
     (simp add: examplePuzzle_def)

text \<open>
  Claim C6 as amended. The structural check fails exactly on the enumerated conditions
  (no sequences; a sequence with fewer than 4 terms; a term or an answer that is not an
  integer or lies outside \<open>[-999, 999]\<close>; an answers count that differs from the
  sequences count; a hints count other than 2; an explanation shorter than 10
  characters). Every such violation has its own error in the returned list, without
  short-circuiting, except that the answers are examined one by one only when their
  count equals the sequences count. In particular a puzzle with a sequence of fewer than
  4 terms and a mismatched answers count has two distinct errors and is not valid.
\<close>

theorem validateStructure_fails_exactly_and_collects:
  "(valid (validateStructure p) \<longleftrightarrow> \<not> structuralViolation p)
   \<and> (sequences p = [] \<longrightarrow> NoSequences \<in> set (errors (validateStructure p)))
   \<and> (\<forall>i < length (sequences p).
        (length (sequences p ! i) < 4 \<longrightarrow>
           SequenceTooShort (i + 1) \<in> set (errors (validateStructure p)))
        \<and> (\<forall>j < length (sequences p ! i).
             (\<not> isInteger (sequences p ! i ! j) \<longrightarrow>
                TermNotInteger (i + 1) (j + 1) (sequences p ! i ! j)
                  \<in> set (errors (validateStructure p)))
             \<and> (sequences p ! i ! j < - 999 \<or> sequences p ! i ! j > 999 \<longrightarrow>
                TermOutOfBounds (i + 1) (j + 1) (sequences p ! i ! j)
                  \<in> set (errors (validateStructure p)))))
   \<and> (length (answers p) \<noteq> length (sequences p) \<longrightarrow>
        AnswersCountMismatch \<in> set (errors (validateStructure p)))
   \<and> (length (answers p) = length (sequences p) \<longrightarrow>
        (\<forall>i < length (answers p).
           (\<not> isInteger (answers p ! i) \<longrightarrow>
              AnswerNotInteger (i + 1) (answers p ! i) \<in> set (errors (validateStructure p)))
           \<and> (answers p ! i < - 999 \<or> answers p ! i > 999 \<longrightarrow>
              AnswerOutOfBounds (i + 1) (answers p ! i) \<in> set (errors (validateStructure p)))))
   \<and> (length (hints p) \<noteq> 2 \<longrightarrow> HintsRequired \<in> set (errors (validateStructure p)))
   \<and> (length (explanation p) < 10 \<longrightarrow>
        ExplanationTooShort \<in> set (errors (validateStructure p)))
   \<and> ((\<exists>i < length (sequences p). length (sequences p ! i) < 4)
        \<and> length (answers p) \<noteq> length (sequences p) \<longrightarrow>
        \<not> valid (validateStructure p)
        \<and> (\<exists>k. SequenceTooShort k \<in> set (errors (validateStructure p))
              \<and> AnswersCountMismatch \<in> set (errors (validateStructure p))
              \<and> SequenceTooShort k \<noteq> AnswersCountMismatch))"
proof -
  have E: "errors (validateStructure p) = structureErrors p"
    by (simp add: validateStructure_def Let_def)
  have V: "valid (validateStructure p) \<longleftrightarrow> structureErrors p = []"
    by (simp add: validateStructure_def Let_def)
  have seqpart: "sequences p \<noteq> [] \<Longrightarrow> set (sequenceLoop 0 (sequences p)) \<subseteq> set (structureErrors p)"
    by (auto simp: structureErrors_def)
  have short: "SequenceTooShort (i + 1) \<in> set (structureErrors p)"
    if "i < length (sequences p)" "length (sequences p ! i) < 4" for i
  proof -
    have "sequences p \<noteq> []" using that(1) by auto
    then show ?thesis
      using sequenceLoop_collects [OF that(1), of 0] that(2) seqpart by auto
  qed
  have terms: "(\<not> isInteger (sequences p ! i ! j) \<longrightarrow>
                TermNotInteger (i + 1) (j + 1) (sequences p ! i ! j) \<in> set (structureErrors p))
             \<and> (sequences p ! i ! j < - 999 \<or> sequences p ! i ! j > 999 \<longrightarrow>
                TermOutOfBounds (i + 1) (j + 1) (sequences p ! i ! j) \<in> set (structureErrors p))"
    if "i < length (sequences p)" "j < length (sequences p ! i)" for i j
  proof -
    have "sequences p \<noteq> []" using that(1) by auto
    then have "set (termLoop i 0 (sequences p ! i)) \<subseteq> set (structureErrors p)"
      using sequenceLoop_collects [OF that(1), of 0] seqpart by auto
    then show ?thesis
      using termLoop_collects [OF that(2), of i 0] by auto
  qed
  have mismatch: "length (answers p) \<noteq> length (sequences p) \<Longrightarrow>
                  AnswersCountMismatch \<in> set (structureErrors p)"
    by (simp add: structureErrors_def)
  have anss: "(\<not> isInteger (answers p ! i) \<longrightarrow>
              AnswerNotInteger (i + 1) (answers p ! i) \<in> set (structureErrors p))
           \<and> (answers p ! i < - 999 \<or> answers p ! i > 999 \<longrightarrow>
              AnswerOutOfBounds (i + 1) (answers p ! i) \<in> set (structureErrors p))"
    if "length (answers p) = length (sequences p)" "i < length (answers p)" for i
  proof -
    have "set (answerLoop 0 (answers p)) \<subseteq> set (structureErrors p)"
      using that(1) by (auto simp: structureErrors_def)
    then show ?thesis
      using answerLoop_collects [OF that(2), of 0] by auto
  qed
  have "sequences p = [] \<longrightarrow> NoSequences \<in> set (structureErrors p)"
    by (simp add: structureErrors_def)
  moreover have "length (hints p) \<noteq> 2 \<longrightarrow> HintsRequired \<in> set (structureErrors p)"
    by (simp add: structureErrors_def)
  moreover have "length (explanation p) < 10 \<longrightarrow> ExplanationTooShort \<in> set (structureErrors p)"
    by (simp add: structureErrors_def)
  moreover have "(\<exists>i < length (sequences p). length (sequences p ! i) < 4)
        \<and> length (answers p) \<noteq> length (sequences p) \<longrightarrow>
        structureErrors p \<noteq> []
        \<and> (\<exists>k. SequenceTooShort k \<in> set (structureErrors p)
              \<and> AnswersCountMismatch \<in> set (structureErrors p)
              \<and> SequenceTooShort k \<noteq> AnswersCountMismatch)"
    using short mismatch by fastforce
  ultimately show ?thesis
    unfolding E V using structureErrors_empty_iff [of p] short terms mismatch anss
    by (intro conjI) blast+
qed

text \<open>
  A puzzle with a three-term sequence and two answers, and one with a fractional term,
  a term of 1000 and an answer of 2000.
\<close>

theorem validateStructure_fails_exactly_and_collects_witness:
  "valid (validateStructure (examplePuzzle [[1, 2, 3]] [4, 5])) = False
   \<and> structuralViolation (examplePuzzle [[1, 2, 3]] [4, 5])
   \<and> errors (validateStructure (examplePuzzle [[1, 2, 3]] [4, 5]))
       = [SequenceTooShort 1, AnswersCountMismatch]
   \<and> structuralViolation (examplePuzzle [[1, 2, 3], [1, 5 / 2, 3, 1000]] [4, 2000])
   \<and> errors (validateStructure (examplePuzzle [[1, 2, 3], [1, 5 / 2, 3, 1000]] [4, 2000]))
       = [SequenceTooShort 1, TermNotInteger 2 2 (5 / 2), TermOutOfBounds 2 4 1000,
          AnswerOutOfBounds 2 2000]"
proof -
  have v1: "structuralViolation (examplePuzzle [[1, 2, 3]] [4, 5])"
    using validateStructure_fails_exactly_and_collects [of "examplePuzzle [[1, 2, 3]] [4, 5]"]
    by (simp add: validateStructure_short_example)
  have v2: "structuralViolation (examplePuzzle [[1, 2, 3], [1, 5 / 2, 3, 1000]] [4, 2000])"
    using validateStructure_fails_exactly_and_collects
            [of "examplePuzzle [[1, 2, 3], [1, 5 / 2, 3, 1000]] [4, 2000]"]
    by (simp add: validateStructure_mixed_example)
  show ?thesis
    using v1 v2 by (simp add: validateStructure_short_example validateStructure_mixed_example)
qed

section \<open>The error branch of the ambiguity check\<close>

text \<open>
  Claim C2 says that \<open>validateAmbiguity\<close> returns an empty error list for every puzzle.
  The quadratic rival is re-checked with a tolerance of 0.5, so a stated answer that is
  not an integer and lies within 0.5 of the fitted value lets the rival fit every
  sequence: for \<open>[1,4,7,10,13]\<close> with the stated answer 16.5 the rival predicting 16 is
  reported as an error.
\<close>

theorem validateAmbiguity_rival_fits_when_answer_fractional:
  "validateAmbiguity (examplePuzzle [[1, 4, 7, 10, 13]] [33 / 2]) =
     Inr \<lparr>valid = False, errors = [Ambiguous quadratic 16 (Some (33 / 2))],
          warnings = [AlternativeDisambiguated constant_diff 16]\<rparr>"
  by (simp add: validateAmbiguity_def examplePuzzle_def element_def alternatives_def
      example_detectors)

text \<open>
  Claim C2 as amended. For every puzzle whose primary index lies within the sequences
  and the answers and whose stated primary answer is an integer, \<open>validateAmbiguity\<close>
  returns with an empty error list and \<open>valid = true\<close>: a method enters the alternatives
  only when its prediction differs from the stated answer, the re-check visits the
  primary sequence too, where the same detector gives the same differing prediction, and
  so every detected rival is emitted as a warning.
\<close>

theorem validateAmbiguity_integer_answer_only_warns:
  assumes "primarySequenceIndex p < length (sequences p)"
    and "primarySequenceIndex p < length (answers p)"
    and "isInteger (answers p ! primarySequenceIndex p)"
  shows "validateAmbiguity p =
           Inr \<lparr>valid = True, errors = [],
                warnings = map (\<lambda>(m, v). AlternativeDisambiguated m v)
                             (alternatives (sequences p ! primarySequenceIndex p)
                                (Some (answers p ! primarySequenceIndex p)))\<rparr>"
proof -
  let ?i = "primarySequenceIndex p"
  let ?sq = "sequences p ! ?i"
  let ?ans = "answers p ! ?i"
  have sq: "element (sequences p) ?i = Some ?sq" and ans: "element (answers p) ?i = Some ?ans"
    using assms(1,2) by (simp_all add: element_def)
  have "\<forall>(m, v) \<in> set (alternatives ?sq (Some ?ans)).
          \<not> fitsAllSequences m 0 (sequences p) (answers p)"
  proof (intro ballI, clarify)
    fix m v
    assume "(m, v) \<in> set (alternatives ?sq (Some ?ans))"
      and fits: "fitsAllSequences m 0 (sequences p) (answers p)"
    then have "mismatch m ?sq (Some ?ans)"
      using assms(3) by (intro mismatch_on_primary)
    moreover have "\<not> mismatch m ?sq (element (answers p) (0 + ?i))"
      using fits assms(1) by (rule fitsAllSequences_each)
    ultimately show False using ans by simp
  qed
  then have "alternativeLoop p (Some ?ans) (alternatives ?sq (Some ?ans)) ([], [])
               = ([], [] @ map (\<lambda>(m, v). AlternativeDisambiguated m v)
                             (alternatives ?sq (Some ?ans)))"
    by (rule alternativeLoop_all_warn)
  then show ?thesis
    by (simp add: validateAmbiguity_def sq ans)
qed

theorem validateAmbiguity_integer_answer_only_warns_witness:
  "validateAmbiguity (examplePuzzle [[1, 4, 7, 10, 13]] [20]) =
     Inr \<lparr>valid = True, errors = [],
          warnings = [AlternativeDisambiguated quadratic 16,
                      AlternativeDisambiguated constant_diff 16]\<rparr>
   \<and> isInteger 20"
proof -
  let ?p = "examplePuzzle [[1, 4, 7, 10, 13]] [20]"
  have h1: "primarySequenceIndex ?p < length (sequences ?p)"
    and h2: "primarySequenceIndex ?p < length (answers ?p)"
    and h3: "isInteger (answers ?p ! primarySequenceIndex ?p)"
    by (simp_all add: examplePuzzle_def isInteger_def)
  have alts: "alternatives (sequences ?p ! primarySequenceIndex ?p)
                (Some (answers ?p ! primarySequenceIndex ?p))
              = [(quadratic, 16), (constant_diff, 16)]"
    by (simp add: examplePuzzle_def alternatives_def example_detectors)
  show ?thesis
    using validateAmbiguity_integer_answer_only_warns [OF h1 h2 h3]
    by (simp add: alts isInteger_def)
qed

section \<open>The seed spread of generateMultipleSequences\<close>

text \<open>
  Claim C9 says that for every non-positional kind and all parameters the first elements
  of the returned sequences differ pairwise. The sum that spreads the seeds is a sum of
  doubles: with the seed \<open>2\<^sup>5\<^sup>4\<close> the second output starts from \<open>2\<^sup>5\<^sup>4 + 2\<close>, which
  rounds to \<open>2\<^sup>5\<^sup>4\<close>, so two outputs of one term have the same first element. With the
  empty list as \<open>startingValues\<close> there is no seed to vary: every output starts from
  the empty sequence, and its first element is the \<^verbatim>\<open>NaN\<close> computed from no term.
\<close>

theorem generateMultipleSequences_same_first_elements:
  "generateMultipleSequences ARITHMETIC_SEQUENCE
     (emptyParams\<lparr>startingValues := Some [2 ^ 54]\<rparr>) 2 1
     = Inr [\<lparr>sequence = [Num (2 ^ 54)], nextValue = Num (2 ^ 54)\<rparr>,
            \<lparr>sequence = [Num (2 ^ 54)], nextValue = Num (2 ^ 54)\<rparr>]
   \<and> generateMultipleSequences ARITHMETIC_SEQUENCE
       (emptyParams\<lparr>startingValues := Some []\<rparr>) 2 1
     = Inr [\<lparr>sequence = [NaN], nextValue = NaN\<rparr>, \<lparr>sequence = [NaN], nextValue = NaN\<rparr>]"
  by code_simp

text \<open>
  Claim C9 as amended. For a non-positional kind, a non-empty list of base starting
  values (\<open>[1]\<close> when \<open>startingValues\<close> is absent) and a length of at least 1: whenever
  \<open>generateMultipleSequences\<close> returns, it returns \<open>count\<close> sequences of the length
  asked for; output \<open>i\<close> begins with the base starting values, the one at index \<open>idx\<close>
  raised by \<open>i * (idx + 1) * 2\<close> and rounded to a double, cut to the length; its first
  element is the first base value plus \<open>2 * i\<close>, rounded; and the first elements differ
  pairwise when none of these sums is changed by the rounding, which is so when the first
  base value is an integer and the sums stay below \<open>2\<^sup>5\<^sup>3\<close> in absolute value. The call
  does return for every recognized kind, given a non-empty operation list for
  \<open>ALTERNATING_OPS\<close>.
\<close>

theorem generateMultipleSequences_seed_spread:
  assumes "\<not> isPositional ruleType" and "nullish (startingValues params) [1] \<noteq> []"
    and "1 \<le> len"
  shows "(\<forall>gs. generateMultipleSequences ruleType params count len = Inr gs \<longrightarrow>
            length gs = count
            \<and> (\<forall>i < count.
                  length (sequence (gs ! i)) = len
                  \<and> take (length (nullish (startingValues params) [1])) (sequence (gs ! i))
                      = take len (map Num (variedStart (nullish (startingValues params) [1]) i))
                  \<and> hd (sequence (gs ! i))
                      = Num (fl (hd (nullish (startingValues params) [1]) + real (i * 2))))
            \<and> ((\<forall>i < count.
                    fl (hd (nullish (startingValues params) [1]) + real (i * 2))
                      = hd (nullish (startingValues params) [1]) + real (i * 2)) \<longrightarrow>
                (\<forall>i < count. \<forall>j < count. i \<noteq> j \<longrightarrow>
                    hd (sequence (gs ! i)) \<noteq> hd (sequence (gs ! j)))))
         \<and> (\<forall>i. \<forall>idx < length (nullish (startingValues params) [1]).
               variedStart (nullish (startingValues params) [1]) i ! idx
                 = fl (nullish (startingValues params) [1] ! idx + real (i * (idx + 1) * 2)))
         \<and> (\<forall>i. isInteger (hd (nullish (startingValues params) [1]))
                  \<and> \<bar>hd (nullish (startingValues params) [1]) + real (i * 2)\<bar> < 2 ^ 53 \<longrightarrow>
               fl (hd (nullish (startingValues params) [1]) + real (i * 2))
                 = hd (nullish (startingValues params) [1]) + real (i * 2))
         \<and> (recognized ruleType
              \<and> (ruleType = ALTERNATING_OPS \<longrightarrow>
                    nullish (operations params) defaultOperations \<noteq> []) \<longrightarrow>
              (\<exists>gs. generateMultipleSequences ruleType params count len = Inr gs))"
proof (intro conjI allI impI)
  let ?bs = "nullish (startingValues params) [1]"
  let ?body = "\<lambda>i. generateSequence ruleType params len (Some (variedStart ?bs i))"
  have unfold: "generateMultipleSequences ruleType params count len = forEach 0 count ?body"
    using assms(1) by (simp add: generateMultipleSequences_def isPositional_def Let_def)
  {
    fix gs assume ok: "generateMultipleSequences ruleType params count len = Inr gs"
    then have fe: "length gs = count \<and> (\<forall>j < count. ?body (0 + j) = Inr (gs ! j))"
      unfolding unfold by (rule forEach_result)
    then show "length gs = count" by simp
    have each: "length (sequence (gs ! i)) = len
                \<and> take (length ?bs) (sequence (gs ! i)) = take len (map Num (variedStart ?bs i))
                \<and> hd (sequence (gs ! i)) = Num (fl (hd ?bs + real (i * 2)))" if "i < count" for i
    proof -
      have "?body i = Inr (gs ! i)" using fe that by simp
      then have seeded: "take (length (variedStart ?bs i)) (sequence (gs ! i))
                           = take len (map Num (variedStart ?bs i))
                         \<and> length (sequence (gs ! i)) = len"
        using assms(1) by (intro generateSequence_seeded)
      then have tk: "take (length ?bs) (sequence (gs ! i)) = take len (map Num (variedStart ?bs i))"
        and ln: "length (sequence (gs ! i)) = len"
        by (simp_all add: length_variedStart)
      have pos: "0 < length ?bs" using assms(2) by simp
      have "hd (sequence (gs ! i)) = sequence (gs ! i) ! 0"
        using ln assms(3) by (cases "sequence (gs ! i)") auto
      also have "\<dots> = take (length ?bs) (sequence (gs ! i)) ! 0"
        using pos by simp
      also have "\<dots> = map Num (variedStart ?bs i) ! 0"
        using tk assms(3) by simp
      also have "\<dots> = Num (variedStart ?bs i ! 0)"
        using pos by (simp add: length_variedStart)
      also have "variedStart ?bs i ! 0 = fl (?bs ! 0 + real (i * (0 + 1) * 2))"
        using pos by (rule nth_variedStart)
      also have "?bs ! 0 + real (i * (0 + 1) * 2) = hd ?bs + real (i * 2)"
        using assms(2) by (simp add: hd_conv_nth)
      finally show ?thesis using tk ln by simp
    qed
    {
      fix i assume "i < count"
      from each [OF this]
      show "length (sequence (gs ! i)) = len"
        and "take (length ?bs) (sequence (gs ! i)) = take len (map Num (variedStart ?bs i))"
        and "hd (sequence (gs ! i)) = Num (fl (hd ?bs + real (i * 2)))"
        by simp_all
    }
    {
      fix i j
      assume exact: "\<forall>i < count. fl (hd ?bs + real (i * 2)) = hd ?bs + real (i * 2)"
        and "i < count" "j < count" "i \<noteq> j"
      then show "hd (sequence (gs ! i)) \<noteq> hd (sequence (gs ! j))"
        using each [of i] each [of j] by simp
    }
  }
  {
    fix i idx assume "idx < length ?bs"
    then show "variedStart ?bs i ! idx = fl (?bs ! idx + real (i * (idx + 1) * 2))"
      by (rule nth_variedStart)
  }
  {
    fix i
    assume small: "isInteger (hd ?bs) \<and> \<bar>hd ?bs + real (i * 2)\<bar> < 2 ^ 53"
    have "isInteger (hd ?bs + real (i * 2))"
    proof -
      have whole: "of_int \<lfloor>hd ?bs\<rfloor> = hd ?bs"
        using small unfolding isInteger_def by (rule conjunct1)
      have sum: "(of_int (\<lfloor>hd ?bs\<rfloor> + int (i * 2)) :: real) = of_int \<lfloor>hd ?bs\<rfloor> + real (i * 2)"
        by simp
      have "hd ?bs + real (i * 2) = of_int (\<lfloor>hd ?bs\<rfloor> + int (i * 2))"
        unfolding sum whole by (rule refl)
      then show ?thesis by (simp only: isInteger_of_int)
    qed
    then show "fl (hd ?bs + real (i * 2)) = hd ?bs + real (i * 2)"
      using small by (intro fl_integer) simp_all
  }
  {
    assume steady: "recognized ruleType
              \<and> (ruleType = ALTERNATING_OPS \<longrightarrow>
                    nullish (operations params) defaultOperations \<noteq> [])"
    have "\<forall>j < count. \<exists>g. ?body (0 + j) = Inr g"
    proof (intro allI impI)
      fix j
      have "variedStart ?bs j \<noteq> []"
        using assms(2) length_variedStart [of ?bs j] by auto
      then show "\<exists>g. ?body (0 + j) = Inr g"
        using steady assms(1,3) by (simp add: generateSequence_total)
    qed
    then show "\<exists>gs. generateMultipleSequences ruleType params count len = Inr gs"
      unfolding unfold by (rule forEach_total)
  }
qed

text \<open>
  The unit test's call (difference 3, seed 1, three sequences of four terms), and a call
  whose terms after the seed are \<^verbatim>\<open>NaN\<close>: the digit-sum rule from the seed 1.5.
\<close>

theorem generateMultipleSequences_seed_spread_witness:
  "generateMultipleSequences ARITHMETIC_SEQUENCE
     (emptyParams\<lparr>RuleProgramParams.difference := Some 3, startingValues := Some [1]\<rparr>) 3 4
   = Inr [\<lparr>sequence = [Num 1, Num 4, Num 7, Num 10], nextValue = Num 13\<rparr>,
          \<lparr>sequence = [Num 3, Num 6, Num 9, Num 12], nextValue = Num 15\<rparr>,
          \<lparr>sequence = [Num 5, Num 8, Num 11, Num 14], nextValue = Num 17\<rparr>]
   \<and> hd (sequence \<lparr>sequence = [Num 1, Num 4, Num 7, Num 10], nextValue = Num 13\<rparr>)
       \<noteq> hd (sequence \<lparr>sequence = [Num 3, Num 6, Num 9, Num 12], nextValue = Num 15\<rparr>)
   \<and> hd (sequence \<lparr>sequence = [Num 1, Num 4, Num 7, Num 10], nextValue = Num 13\<rparr>)
       \<noteq> hd (sequence \<lparr>sequence = [Num 5, Num 8, Num 11, Num 14], nextValue = Num 17\<rparr>)
   \<and> hd (sequence \<lparr>sequence = [Num 3, Num 6, Num 9, Num 12], nextValue = Num 15\<rparr>)
       \<noteq> hd (sequence \<lparr>sequence = [Num 5, Num 8, Num 11, Num 14], nextValue = Num 17\<rparr>)
   \<and> fl (1 + real (2 * 2)) = 5
   \<and> generateMultipleSequences DIGIT_SUM_BASED
         (emptyParams\<lparr>startingValues := Some [3 / 2]\<rparr>) 2 2
       = Inr [\<lparr>sequence = [Num (3 / 2), NaN], nextValue = NaN\<rparr>,
              \<lparr>sequence = [Num (7 / 2), NaN], nextValue = NaN\<rparr>]
   \<and> hd (sequence \<lparr>sequence = [Num (3 / 2), NaN], nextValue = NaN\<rparr>)
       \<noteq> hd (sequence \<lparr>sequence = [Num (7 / 2), NaN], nextValue = NaN\<rparr>)"
proof -
  let ?ps = "emptyParams\<lparr>RuleProgramParams.difference := Some 3, startingValues := Some [1]\<rparr>"
  let ?gs = "[\<lparr>sequence = [Num 1, Num 4, Num 7, Num 10], nextValue = Num 13\<rparr>,
          \<lparr>sequence = [Num 3, Num 6, Num 9, Num 12], nextValue = Num 15\<rparr>,
          \<lparr>sequence = [Num 5, Num 8, Num 11, Num 14], nextValue = Num 17\<rparr>]"
  have h1: "\<not> isPositional ARITHMETIC_SEQUENCE" by (simp add: isPositional_def)
  have h2: "nullish (startingValues ?ps) [1] \<noteq> []" by (simp add: nullish_def)
  have h3: "(1 :: nat) \<le> 4" by simp
  have bs: "hd (nullish (startingValues ?ps) [1]) = 1" by (simp add: nullish_def)
  note whole = generateMultipleSequences_seed_spread [OF h1 h2 h3, of 3]
  have exact: "fl (1 + real (i * 2)) = 1 + real (i * 2)" if "i < 3" for i
  proof -
    have "isInteger (hd (nullish (startingValues ?ps) [1]))"
      unfolding bs using isInteger_of_int [of 1] by simp
    moreover have "\<bar>hd (nullish (startingValues ?ps) [1]) + real (i * 2)\<bar> < 2 ^ 53"
      unfolding bs using that by simp
    ultimately have "fl (hd (nullish (startingValues ?ps) [1]) + real (i * 2))
               = hd (nullish (startingValues ?ps) [1]) + real (i * 2)"
      using whole by blast
    then show ?thesis by (simp only: bs)
  qed
  then have exact_all: "\<forall>i < 3. fl (hd (nullish (startingValues ?ps) [1]) + real (i * 2))
                         = hd (nullish (startingValues ?ps) [1]) + real (i * 2)"
    by (simp only: bs) blast
  note spread = whole [THEN conjunct1, rule_format, OF generateMultipleSequences_example]
  have apart: "\<forall>i < 3. \<forall>j < 3. i \<noteq> j \<longrightarrow>
        hd (sequence (?gs ! i)) \<noteq> hd (sequence (?gs ! j))"
    using spread exact_all by blast
  have a01: "hd (sequence (?gs ! 0)) \<noteq> hd (sequence (?gs ! 1))"
    using apart by simp
  have a02: "hd (sequence (?gs ! 0)) \<noteq> hd (sequence (?gs ! 2))"
    using apart by simp
  have a12: "hd (sequence (?gs ! 1)) \<noteq> hd (sequence (?gs ! 2))"
    using apart by simp
  have five: "fl (1 + real (2 * 2)) = 5"
    using exact [of 2] by simp
  let ?qs = "emptyParams\<lparr>startingValues := Some [3 / 2]\<rparr>"
  let ?hs = "[\<lparr>sequence = [Num (3 / 2), NaN], nextValue = NaN\<rparr>,
          \<lparr>sequence = [Num (7 / 2), NaN], nextValue = NaN\<rparr>]"
  have k1: "\<not> isPositional DIGIT_SUM_BASED" by (simp add: isPositional_def)
  have k2: "nullish (startingValues ?qs) [1] \<noteq> []" by (simp add: nullish_def)
  have k3: "(1 :: nat) \<le> 2" by simp
  have cs: "hd (nullish (startingValues ?qs) [1]) = 3 / 2" by (simp add: nullish_def)
  have exact_half: "\<forall>i < 2. fl (hd (nullish (startingValues ?qs) [1]) + real (i * 2))
                         = hd (nullish (startingValues ?qs) [1]) + real (i * 2)"
  proof (intro allI impI)
    fix i :: nat assume "i < 2"
    then have "i = 0 \<or> i = 1" by auto
    then show "fl (hd (nullish (startingValues ?qs) [1]) + real (i * 2))
                         = hd (nullish (startingValues ?qs) [1]) + real (i * 2)"
      unfolding cs using fl_fraction_example by auto
  qed
  note spread_half = generateMultipleSequences_seed_spread [OF k1 k2 k3, of 2, THEN conjunct1,
      rule_format, OF generateMultipleSequences_fraction_example]
  have apart_half: "\<forall>i < 2. \<forall>j < 2. i \<noteq> j \<longrightarrow>
        hd (sequence (?hs ! i)) \<noteq> hd (sequence (?hs ! j))"
    using spread_half exact_half by blast
  have b01: "hd (sequence (?hs ! 0)) \<noteq> hd (sequence (?hs ! 1))"
    using apart_half by simp
  show ?thesis
    using generateMultipleSequences_example a01 a02 a12 five
      generateMultipleSequences_fraction_example b01
    by simp
qed

end
